theory Spec2Isabelle
  imports
    Main
    "HOL-Library.Word"
    "HOL-Library.Char_ord"
    "HOL-Library.List_Lexorder"
begin

section \<open>Basic Go types\<close>

text \<open>
  Go's \<open>int64\<close> and \<open>uint64\<close> are 64-bit words, read through \<open>sint\<close> and \<open>uint\<close>.
  A Go \<open>error\<close> built by \<open>fmt.Errorf\<close> is modelled by its message.  A slice is a list;
  where the difference between a nil slice and an empty one is observable (JSON encoding),
  the slice is a \<open>list option\<close> with \<open>None\<close> for nil.  A pointer field of an upstream
  record is an \<open>option\<close> with \<open>None\<close> for nil.
\<close>

type_synonym int64 = "64 word"
type_synonym uint64 = "64 word"
type_synonym error = string

section \<open>Upstream result records (google.golang.org/api/youtube/v3)\<close>

text \<open>
  Only the fields the handlers read are kept.  The nesting and the pointer-valued fields
  follow the library's declarations: \<open>Id\<close>, \<open>Snippet\<close>, \<open>Statistics\<close>, \<open>ContentDetails\<close>,
  \<open>Thumbnails\<close> and \<open>Medium\<close> are pointers, \<open>Tags\<close> is a slice of strings, everything else
  is a string or an integer.  The elements of a result list are taken to be non-nil.
\<close>

record Thumbnail =
  th_Url :: string

record ThumbnailDetails =
  td_Medium :: "Thumbnail option"

record ResourceId =
  rid_VideoId :: string
  rid_ChannelId :: string

record SearchResultSnippet =
  srs_Title :: string
  srs_Description :: string
  srs_ChannelId :: string
  srs_ChannelTitle :: string
  srs_PublishedAt :: string
  srs_Thumbnails :: "ThumbnailDetails option"

record SearchResult =
  sr_Id :: "ResourceId option"
  sr_Snippet :: "SearchResultSnippet option"

record ChannelSnippet =
  chs_Title :: string
  chs_Description :: string
  chs_CustomUrl :: string
  chs_PublishedAt :: string
  chs_Country :: string
  chs_Thumbnails :: "ThumbnailDetails option"

record ChannelStatistics =
  cst_SubscriberCount :: uint64
  cst_VideoCount :: uint64
  cst_ViewCount :: uint64

record Channel =
  ch_Id :: string
  ch_Snippet :: "ChannelSnippet option"
  ch_Statistics :: "ChannelStatistics option"

record VideoSnippet =
  vs_Title :: string
  vs_Description :: string
  vs_ChannelId :: string
  vs_ChannelTitle :: string
  vs_PublishedAt :: string
  vs_Thumbnails :: "ThumbnailDetails option"
  vs_Tags :: "string list option"
  vs_CategoryId :: string

record VideoStatistics =
  vst_ViewCount :: uint64
  vst_LikeCount :: uint64
  vst_CommentCount :: uint64

record VideoContentDetails =
  vcd_Duration :: string

record Video =
  v_Id :: string
  v_Snippet :: "VideoSnippet option"
  v_Statistics :: "VideoStatistics option"
  v_ContentDetails :: "VideoContentDetails option"

record PlaylistItemSnippet =
  pis_Title :: string
  pis_Description :: string
  pis_ChannelId :: string
  pis_ChannelTitle :: string
  pis_PublishedAt :: string
  pis_Position :: int64
  pis_Thumbnails :: "ThumbnailDetails option"

record PlaylistItemContentDetails =
  picd_VideoId :: string

record PlaylistItem =
  pi_ContentDetails :: "PlaylistItemContentDetails option"
  pi_Snippet :: "PlaylistItemSnippet option"

section \<open>Upstream calls\<close>

text \<open>
  A call object of the upstream library collects URL parameters; each builder method sets
  one of them.  \<open>Type\<close> and \<open>Id\<close> are variadic in the library and hold a list.
\<close>

record SearchListCall =
  sl_part :: "string list"
  sl_q :: "string option"
  sl_type :: "string list option"
  sl_maxResults :: "int64 option"
  sl_order :: "string option"
  sl_channelId :: "string option"

record ChannelsListCall =
  cl_part :: "string list"
  cl_id :: "string list option"
  cl_mine :: "bool option"

record VideosListCall =
  vl_part :: "string list"
  vl_id :: "string list option"

record PlaylistItemsListCall =
  pl_part :: "string list"
  pl_playlistId :: "string option"
  pl_maxResults :: "int64 option"

definition Search_List :: "string list \<Rightarrow> SearchListCall" where
  "Search_List part = \<lparr>sl_part = part, sl_q = None, sl_type = None, sl_maxResults = None,
     sl_order = None, sl_channelId = None\<rparr>"

definition Search_Q :: "string \<Rightarrow> SearchListCall \<Rightarrow> SearchListCall" where
  "Search_Q q c = c\<lparr>sl_q := Some q\<rparr>"

definition Search_Type :: "string list \<Rightarrow> SearchListCall \<Rightarrow> SearchListCall" where
  "Search_Type ts c = c\<lparr>sl_type := Some ts\<rparr>"

definition Search_MaxResults :: "int64 \<Rightarrow> SearchListCall \<Rightarrow> SearchListCall" where
  "Search_MaxResults n c = c\<lparr>sl_maxResults := Some n\<rparr>"

definition Search_Order :: "string \<Rightarrow> SearchListCall \<Rightarrow> SearchListCall" where
  "Search_Order ord c = c\<lparr>sl_order := Some ord\<rparr>"

definition Search_ChannelId :: "string \<Rightarrow> SearchListCall \<Rightarrow> SearchListCall" where
  "Search_ChannelId ch c = c\<lparr>sl_channelId := Some ch\<rparr>"

definition Channels_List :: "string list \<Rightarrow> ChannelsListCall" where
  "Channels_List part = \<lparr>cl_part = part, cl_id = None, cl_mine = None\<rparr>"

definition Channels_Id :: "string list \<Rightarrow> ChannelsListCall \<Rightarrow> ChannelsListCall" where
  "Channels_Id ids c = c\<lparr>cl_id := Some ids\<rparr>"

definition Channels_Mine :: "bool \<Rightarrow> ChannelsListCall \<Rightarrow> ChannelsListCall" where
  "Channels_Mine b c = c\<lparr>cl_mine := Some b\<rparr>"

definition Videos_List :: "string list \<Rightarrow> VideosListCall" where
  "Videos_List part = \<lparr>vl_part = part, vl_id = None\<rparr>"

definition Videos_Id :: "string list \<Rightarrow> VideosListCall \<Rightarrow> VideosListCall" where
  "Videos_Id ids c = c\<lparr>vl_id := Some ids\<rparr>"

definition PlaylistItems_List :: "string list \<Rightarrow> PlaylistItemsListCall" where
  "PlaylistItems_List part = \<lparr>pl_part = part, pl_playlistId = None, pl_maxResults = None\<rparr>"

definition PlaylistItems_PlaylistId :: "string \<Rightarrow> PlaylistItemsListCall \<Rightarrow> PlaylistItemsListCall" where
  "PlaylistItems_PlaylistId p c = c\<lparr>pl_playlistId := Some p\<rparr>"

definition PlaylistItems_MaxResults :: "int64 \<Rightarrow> PlaylistItemsListCall \<Rightarrow> PlaylistItemsListCall" where
  "PlaylistItems_MaxResults n c = c\<lparr>pl_maxResults := Some n\<rparr>"

text \<open>
  The \<open>youtube.Service\<close> handle.  What the platform answers to a call (\<open>call.Do()\<close>) is
  outside the program: the handle carries it as four functions, each giving either the
  transport or API error or the \<open>Items\<close> of the response.
\<close>

record Service =
  search_do :: "SearchListCall \<Rightarrow> error + SearchResult list"
  channels_do :: "ChannelsListCall \<Rightarrow> error + Channel list"
  videos_do :: "VideosListCall \<Rightarrow> error + Video list"
  playlist_items_do :: "PlaylistItemsListCall \<Rightarrow> error + PlaylistItem list"

section \<open>Configuration record\<close>

record Config =
  YouTubeAPIKey :: string
  OAuth2CredentialsFile :: string
  TokenFile :: string
  ServerName :: string
  ServerVersion :: string
  ServerDescription :: string

record YouTubeClient =
  yc_service :: Service
  yc_config :: Config

section \<open>Upstream Gateway: the five methods of YouTubeClient\<close>

definition SearchVideos ::
  "YouTubeClient \<Rightarrow> string \<Rightarrow> int64 \<Rightarrow> string \<Rightarrow> error + SearchResult list" where
  "SearchVideos yc query maxResults channelID =
    (let call = Search_Order ''relevance'' (Search_MaxResults maxResults
                  (Search_Type [''video''] (Search_Q query (Search_List [''snippet'']))));
         call = (if channelID \<noteq> '''' then Search_ChannelId channelID call else call)
     in case search_do (yc_service yc) call of
          Inl err \<Rightarrow> Inl (''error searching videos: '' @ err)
        | Inr items \<Rightarrow> Inr items)"

definition GetChannelInfo :: "YouTubeClient \<Rightarrow> string \<Rightarrow> error + Channel" where
  "GetChannelInfo yc channelID =
    (let call = Channels_List [''snippet'', ''statistics'', ''contentDetails''];
         call = (if channelID \<noteq> '''' then Channels_Id [channelID] call
                 else Channels_Mine True call)
     in case channels_do (yc_service yc) call of
          Inl err \<Rightarrow> Inl (''error getting channel info: '' @ err)
        | Inr items \<Rightarrow>
            (case items of
               [] \<Rightarrow> Inl ''channel not found''
             | first # _ \<Rightarrow> Inr first))"

definition GetVideoDetails :: "YouTubeClient \<Rightarrow> string \<Rightarrow> error + Video" where
  "GetVideoDetails yc videoID =
    (let call = Videos_Id [videoID] (Videos_List [''snippet'', ''statistics'', ''contentDetails''])
     in case videos_do (yc_service yc) call of
          Inl err \<Rightarrow> Inl (''error getting video details: '' @ err)
        | Inr items \<Rightarrow>
            (case items of
               [] \<Rightarrow> Inl ''video not found''
             | first # _ \<Rightarrow> Inr first))"

definition GetPlaylistItems ::
  "YouTubeClient \<Rightarrow> string \<Rightarrow> int64 \<Rightarrow> error + PlaylistItem list" where
  "GetPlaylistItems yc playlistID maxResults =
    (let call = PlaylistItems_MaxResults maxResults
                  (PlaylistItems_PlaylistId playlistID
                     (PlaylistItems_List [''snippet'', ''contentDetails'']))
     in case playlist_items_do (yc_service yc) call of
          Inl err \<Rightarrow> Inl (''error getting playlist items: '' @ err)
        | Inr items \<Rightarrow> Inr items)"

definition SearchChannels ::
  "YouTubeClient \<Rightarrow> string \<Rightarrow> int64 \<Rightarrow> error + SearchResult list" where
  "SearchChannels yc query maxResults =
    (let call = Search_Order ''relevance'' (Search_MaxResults maxResults
                  (Search_Type [''channel''] (Search_Q query (Search_List [''snippet'']))))
     in case search_do (yc_service yc) call of
          Inl err \<Rightarrow> Inl (''error searching channels: '' @ err)
        | Inr items \<Rightarrow> Inr items)"

section \<open>JSON encoding (encoding/json)\<close>

text \<open>
  The values a handler puts into a \<open>map[string]interface{}\<close>: strings, signed and unsigned
  64-bit integers, and the \<open>[]string\<close> of tags (\<open>None\<close> is the nil slice).  The map literal
  itself is an association list in the order of the source; its keys are distinct.
\<close>

datatype gvalue = GString string | GInt64 int64 | GUint64 uint64 | GStrings "string list option"

type_synonym gmap = "(string \<times> gvalue) list"

datatype json = JNull | JString string | JNumber int | JArray "json list"
  | JObject "(string \<times> json) list"

text \<open>
  \<open>encoding/json\<close> writes a nil slice as \<open>null\<close> and a non-nil slice as an array, also when
  it is empty; it writes the entries of a map sorted by key (bytewise).
\<close>

fun gvalue_json :: "gvalue \<Rightarrow> json" where
  "gvalue_json (GString s) = JString s"
| "gvalue_json (GInt64 n) = JNumber (sint n)"
| "gvalue_json (GUint64 n) = JNumber (uint n)"
| "gvalue_json (GStrings None) = JNull"
| "gvalue_json (GStrings (Some ss)) = JArray (map JString ss)"

definition gmap_json :: "gmap \<Rightarrow> json" where
  "gmap_json m = JObject (sort_key fst (map (\<lambda>kv. (fst kv, gvalue_json (snd kv))) m))"

fun gmaps_json :: "gmap list option \<Rightarrow> json" where
  "gmaps_json None = JNull"
| "gmaps_json (Some ms) = JArray (map gmap_json ms)"

text \<open>Decimal digits of a number, as \<open>strconv\<close> prints them.\<close>

definition digit_char :: "nat \<Rightarrow> char" where
  "digit_char d = char_of (48 + d)"

function show_nat :: "nat \<Rightarrow> string" where
  "show_nat n = (if n < 10 then [digit_char n] else show_nat (n div 10) @ [digit_char (n mod 10)])"
  by pat_completeness auto
termination
  by (relation "measure id") auto

definition show_int :: "int \<Rightarrow> string" where
  "show_int i = (if i < 0 then CHR ''-'' # show_nat (nat (- i)) else show_nat (nat i))"

text \<open>
  The layout of \<open>json.MarshalIndent(v, "", "  ")\<close>: an empty array or object stays on one
  line, otherwise every element goes on a line of its own, indented by two spaces per level,
  and a colon is followed by one space.  How a string is quoted and escaped depends on the
  library version; the quoting function \<open>q\<close> is a parameter.
\<close>

definition newline_indent :: "nat \<Rightarrow> string" where
  "newline_indent d = CHR 0x0A # concat (replicate d ''  '')"

fun sep_by :: "string \<Rightarrow> string list \<Rightarrow> string" where
  "sep_by s [] = []"
| "sep_by s [x] = x"
| "sep_by s (x # y # ys) = x @ s @ sep_by s (y # ys)"

fun render :: "(string \<Rightarrow> string) \<Rightarrow> nat \<Rightarrow> json \<Rightarrow> string" where
  "render q d JNull = ''null''"
| "render q d (JString s) = q s"
| "render q d (JNumber n) = show_int n"
| "render q d (JArray vs) =
    (if vs = [] then ''[]''
     else ''['' @ newline_indent (Suc d)
          @ sep_by ('','' @ newline_indent (Suc d)) (map (render q (Suc d)) vs)
          @ newline_indent d @ '']'')"
| "render q d (JObject kvs) =
    (if kvs = [] then ''{}''
     else ''{'' @ newline_indent (Suc d)
          @ sep_by ('','' @ newline_indent (Suc d))
              (map (\<lambda>kv. q (fst kv) @ '': '' @ render q (Suc d) (snd kv)) kvs)
          @ newline_indent d @ ''}'')"

definition MarshalIndent :: "(string \<Rightarrow> string) \<Rightarrow> json \<Rightarrow> string" where
  "MarshalIndent q v = render q 0 v"

text \<open>A plain quoting function for examples: it escapes the quote and the backslash.\<close>

fun escape_plain :: "string \<Rightarrow> string" where
  "escape_plain [] = []"
| "escape_plain (c # cs) =
    (if c = CHR 0x22 \<or> c = CHR 0x5C then CHR 0x5C # c # escape_plain cs
     else c # escape_plain cs)"

definition quote_plain :: "string \<Rightarrow> string" where
  "quote_plain s = CHR 0x22 # escape_plain s @ [CHR 0x22]"

section \<open>Tool arguments\<close>

record SearchVideosArgs =
  sva_Query :: string
  sva_MaxResults :: int64
  sva_ChannelID :: string

record GetChannelInfoArgs =
  gcia_ChannelID :: string

record GetVideoDetailsArgs =
  gvda_VideoID :: string

record GetPlaylistItemsArgs =
  gpia_PlaylistID :: string
  gpia_MaxResults :: int64

record SearchChannelsArgs =
  sca_Query :: string
  sca_MaxResults :: int64

text \<open>
  Decoding the JSON arguments of a call into the argument struct leaves a field that is
  absent from the arguments at its zero value.
\<close>

definition field_int64 :: "int64 option \<Rightarrow> int64" where
  "field_int64 v = (case v of None \<Rightarrow> 0 | Some n \<Rightarrow> n)"

definition field_string :: "string option \<Rightarrow> string" where
  "field_string v = (case v of None \<Rightarrow> [] | Some s \<Rightarrow> s)"

section \<open>Response projection and the tool handlers\<close>

text \<open>
  Reading a field through a nil pointer is a run-time panic.  A handler ends in one of three
  ways: it returns the text content, it returns an error, or it panics.
\<close>

datatype panic = NilDereference

datatype tool_outcome = TextContent string | ToolError error | Panicked panic

definition deref :: "'a option \<Rightarrow> ('a \<Rightarrow> panic + 'b) \<Rightarrow> panic + 'b" where
  "deref p k = (case p of None \<Rightarrow> Inl NilDereference | Some x \<Rightarrow> k x)"

definition go_append :: "'a list option \<Rightarrow> 'a \<Rightarrow> 'a list option" where
  "go_append s x = (case s of None \<Rightarrow> Some [x] | Some xs \<Rightarrow> Some (xs @ [x]))"

text \<open>
  The loop \<open>for _, item := range results { ...; out = append(out, m) }\<close> over a slice that
  starts as \<open>acc\<close>; \<open>f\<close> builds the map of one item.
\<close>

fun range_append :: "('a \<Rightarrow> panic + gmap) \<Rightarrow> gmap list option \<Rightarrow> 'a list \<Rightarrow> panic + gmap list option" where
  "range_append f acc [] = Inr acc"
| "range_append f acc (item # items) =
    (case f item of
       Inl p \<Rightarrow> Inl p
     | Inr m \<Rightarrow> range_append f (go_append acc m) items)"

definition project_search_video :: "SearchResult \<Rightarrow> panic + gmap" where
  "project_search_video item =
    deref (sr_Id item) (\<lambda>id.
    deref (sr_Snippet item) (\<lambda>sn.
    deref (srs_Thumbnails sn) (\<lambda>ths.
    deref (td_Medium ths) (\<lambda>medium.
      Inr [(''video_id'', GString (rid_VideoId id)),
           (''title'', GString (srs_Title sn)),
           (''description'', GString (srs_Description sn)),
           (''channel_id'', GString (srs_ChannelId sn)),
           (''channel_title'', GString (srs_ChannelTitle sn)),
           (''published_at'', GString (srs_PublishedAt sn)),
           (''thumbnail_url'', GString (th_Url medium))]))))"

definition project_channel :: "Channel \<Rightarrow> panic + gmap" where
  "project_channel channel =
    deref (ch_Snippet channel) (\<lambda>sn.
    deref (chs_Thumbnails sn) (\<lambda>ths.
    deref (td_Medium ths) (\<lambda>medium.
    deref (ch_Statistics channel) (\<lambda>st.
      Inr [(''channel_id'', GString (ch_Id channel)),
           (''title'', GString (chs_Title sn)),
           (''description'', GString (chs_Description sn)),
           (''custom_url'', GString (chs_CustomUrl sn)),
           (''published_at'', GString (chs_PublishedAt sn)),
           (''country'', GString (chs_Country sn)),
           (''thumbnail_url'', GString (th_Url medium)),
           (''subscriber_count'', GUint64 (cst_SubscriberCount st)),
           (''video_count'', GUint64 (cst_VideoCount st)),
           (''view_count'', GUint64 (cst_ViewCount st))]))))"

definition project_video :: "Video \<Rightarrow> panic + gmap" where
  "project_video video =
    deref (v_Statistics video) (\<lambda>st.
    let viewCount = vst_ViewCount st;
        likeCount = vst_LikeCount st;
        commentCount = vst_CommentCount st
    in
    deref (v_Snippet video) (\<lambda>sn.
    deref (v_ContentDetails video) (\<lambda>cd.
    deref (vs_Thumbnails sn) (\<lambda>ths.
    deref (td_Medium ths) (\<lambda>medium.
      Inr [(''video_id'', GString (v_Id video)),
           (''title'', GString (vs_Title sn)),
           (''description'', GString (vs_Description sn)),
           (''channel_id'', GString (vs_ChannelId sn)),
           (''channel_title'', GString (vs_ChannelTitle sn)),
           (''published_at'', GString (vs_PublishedAt sn)),
           (''duration'', GString (vcd_Duration cd)),
           (''thumbnail_url'', GString (th_Url medium)),
           (''view_count'', GUint64 viewCount),
           (''like_count'', GUint64 likeCount),
           (''comment_count'', GUint64 commentCount),
           (''tags'', GStrings (vs_Tags sn)),
           (''category_id'', GString (vs_CategoryId sn))])))))"

definition project_playlist_item :: "PlaylistItem \<Rightarrow> panic + gmap" where
  "project_playlist_item item =
    deref (pi_ContentDetails item) (\<lambda>cd.
    deref (pi_Snippet item) (\<lambda>sn.
    deref (pis_Thumbnails sn) (\<lambda>ths.
    deref (td_Medium ths) (\<lambda>medium.
      Inr [(''video_id'', GString (picd_VideoId cd)),
           (''title'', GString (pis_Title sn)),
           (''description'', GString (pis_Description sn)),
           (''channel_id'', GString (pis_ChannelId sn)),
           (''channel_title'', GString (pis_ChannelTitle sn)),
           (''published_at'', GString (pis_PublishedAt sn)),
           (''position'', GInt64 (pis_Position sn)),
           (''thumbnail_url'', GString (th_Url medium))]))))"

definition project_search_channel :: "SearchResult \<Rightarrow> panic + gmap" where
  "project_search_channel item =
    deref (sr_Id item) (\<lambda>id.
    deref (sr_Snippet item) (\<lambda>sn.
    deref (srs_Thumbnails sn) (\<lambda>ths.
    deref (td_Medium ths) (\<lambda>medium.
      Inr [(''channel_id'', GString (rid_ChannelId id)),
           (''title'', GString (srs_Title sn)),
           (''description'', GString (srs_Description sn)),
           (''published_at'', GString (srs_PublishedAt sn)),
           (''thumbnail_url'', GString (th_Url medium))]))))"

text \<open>
  The part of a listing handler after the Gateway call: the loop over the items starting
  from a nil slice, then \<open>json.MarshalIndent\<close>.  For the values these maps hold the encoder
  has no error case, so the handler's \<open>failed to marshal response\<close> branch is never taken.
\<close>

definition list_reply :: "(string \<Rightarrow> string) \<Rightarrow> ('a \<Rightarrow> panic + gmap) \<Rightarrow> 'a list \<Rightarrow> tool_outcome" where
  "list_reply q f items =
    (case range_append f None items of
       Inl p \<Rightarrow> Panicked p
     | Inr out \<Rightarrow> TextContent (MarshalIndent q (gmaps_json out)))"

definition object_reply :: "(string \<Rightarrow> string) \<Rightarrow> ('a \<Rightarrow> panic + gmap) \<Rightarrow> 'a \<Rightarrow> tool_outcome" where
  "object_reply q f x =
    (case f x of
       Inl p \<Rightarrow> Panicked p
     | Inr m \<Rightarrow> TextContent (MarshalIndent q (gmap_json m)))"

definition search_videos_handler ::
  "(string \<Rightarrow> string) \<Rightarrow> YouTubeClient \<Rightarrow> SearchVideosArgs \<Rightarrow> tool_outcome" where
  "search_videos_handler q youtubeClient args0 =
    (let args = (if sva_MaxResults args0 = 0 then args0\<lparr>sva_MaxResults := 10\<rparr> else args0)
     in case SearchVideos youtubeClient (sva_Query args) (sva_MaxResults args) (sva_ChannelID args) of
          Inl err \<Rightarrow> ToolError (''failed to search videos: '' @ err)
        | Inr results \<Rightarrow> list_reply q project_search_video results)"

definition get_channel_info_handler ::
  "(string \<Rightarrow> string) \<Rightarrow> YouTubeClient \<Rightarrow> GetChannelInfoArgs \<Rightarrow> tool_outcome" where
  "get_channel_info_handler q youtubeClient args =
    (case GetChannelInfo youtubeClient (gcia_ChannelID args) of
       Inl err \<Rightarrow> ToolError (''failed to get channel info: '' @ err)
     | Inr channel \<Rightarrow> object_reply q project_channel channel)"

definition get_video_details_handler ::
  "(string \<Rightarrow> string) \<Rightarrow> YouTubeClient \<Rightarrow> GetVideoDetailsArgs \<Rightarrow> tool_outcome" where
  "get_video_details_handler q youtubeClient args =
    (case GetVideoDetails youtubeClient (gvda_VideoID args) of
       Inl err \<Rightarrow> ToolError (''failed to get video details: '' @ err)
     | Inr video \<Rightarrow> object_reply q project_video video)"

definition get_playlist_items_handler ::
  "(string \<Rightarrow> string) \<Rightarrow> YouTubeClient \<Rightarrow> GetPlaylistItemsArgs \<Rightarrow> tool_outcome" where
  "get_playlist_items_handler q youtubeClient args0 =
    (let args = (if gpia_MaxResults args0 = 0 then args0\<lparr>gpia_MaxResults := 10\<rparr> else args0)
     in case GetPlaylistItems youtubeClient (gpia_PlaylistID args) (gpia_MaxResults args) of
          Inl err \<Rightarrow> ToolError (''failed to get playlist items: '' @ err)
        | Inr items \<Rightarrow> list_reply q project_playlist_item items)"

definition search_channels_handler ::
  "(string \<Rightarrow> string) \<Rightarrow> YouTubeClient \<Rightarrow> SearchChannelsArgs \<Rightarrow> tool_outcome" where
  "search_channels_handler q youtubeClient args0 =
    (let args = (if sca_MaxResults args0 = 0 then args0\<lparr>sca_MaxResults := 10\<rparr> else args0)
     in case SearchChannels youtubeClient (sca_Query args) (sca_MaxResults args) of
          Inl err \<Rightarrow> ToolError (''failed to search channels: '' @ err)
        | Inr results \<Rightarrow> list_reply q project_search_channel results)"

section \<open>Tool dispatch\<close>

text \<open>
  A tool call as it arrives: the tool and the arguments present in the call (\<open>None\<close> for an
  argument the caller left out).  Only the three listing tools declare \<open>max_results\<close>.

  The protocol layer checks the arguments against the schema it derives from the argument
  struct before it runs the handler: a field whose JSON tag has no \<open>omitempty\<close> is required
  (\<open>query\<close>, \<open>video_id\<close>, \<open>playlist_id\<close>).  A call that lacks a required argument is
  rejected with an invalid-argument error; the handler does not run and the Gateway is not
  reached.  Otherwise the handler runs on the decoded struct, where an optional argument
  that is absent has its zero value.
\<close>

datatype tool_call =
    Call_search_videos "string option" "int64 option" "string option"
  | Call_get_channel_info "string option"
  | Call_get_video_details "string option"
  | Call_get_playlist_items "string option" "int64 option"
  | Call_search_channels "string option" "int64 option"

datatype call_outcome = InvalidArgument string | Handled tool_outcome

fun missing_required :: "tool_call \<Rightarrow> string option" where
  "missing_required (Call_search_videos None max_results channel_id) = Some ''query''"
| "missing_required (Call_search_videos (Some query) max_results channel_id) = None"
| "missing_required (Call_get_channel_info channel_id) = None"
| "missing_required (Call_get_video_details None) = Some ''video_id''"
| "missing_required (Call_get_video_details (Some video_id)) = None"
| "missing_required (Call_get_playlist_items None max_results) = Some ''playlist_id''"
| "missing_required (Call_get_playlist_items (Some playlist_id) max_results) = None"
| "missing_required (Call_search_channels None max_results) = Some ''query''"
| "missing_required (Call_search_channels (Some query) max_results) = None"

text \<open>The handler of a call that passed the check, run on the decoded arguments.\<close>

fun call_handler :: "(string \<Rightarrow> string) \<Rightarrow> YouTubeClient \<Rightarrow> tool_call \<Rightarrow> tool_outcome" where
  "call_handler q yc (Call_search_videos query max_results channel_id) =
     search_videos_handler q yc
       \<lparr>sva_Query = field_string query, sva_MaxResults = field_int64 max_results,
        sva_ChannelID = field_string channel_id\<rparr>"
| "call_handler q yc (Call_get_channel_info channel_id) =
     get_channel_info_handler q yc \<lparr>gcia_ChannelID = field_string channel_id\<rparr>"
| "call_handler q yc (Call_get_video_details video_id) =
     get_video_details_handler q yc \<lparr>gvda_VideoID = field_string video_id\<rparr>"
| "call_handler q yc (Call_get_playlist_items playlist_id max_results) =
     get_playlist_items_handler q yc
       \<lparr>gpia_PlaylistID = field_string playlist_id, gpia_MaxResults = field_int64 max_results\<rparr>"
| "call_handler q yc (Call_search_channels query max_results) =
     search_channels_handler q yc
       \<lparr>sca_Query = field_string query, sca_MaxResults = field_int64 max_results\<rparr>"

definition dispatch :: "(string \<Rightarrow> string) \<Rightarrow> YouTubeClient \<Rightarrow> tool_call \<Rightarrow> call_outcome" where
  "dispatch q yc c =
    (case missing_required c of
       Some name \<Rightarrow> InvalidArgument name
     | None \<Rightarrow> Handled (call_handler q yc c))"

fun call_max_results :: "tool_call \<Rightarrow> int64 option" where
  "call_max_results (Call_search_videos query max_results channel_id) = max_results"
| "call_max_results (Call_get_channel_info channel_id) = None"
| "call_max_results (Call_get_video_details video_id) = None"
| "call_max_results (Call_get_playlist_items playlist_id max_results) = max_results"
| "call_max_results (Call_search_channels query max_results) = max_results"

text \<open>
  The Gateway method a handler invokes, with the arguments it passes, and what the handler
  does with the method's result; a rejected call invokes none.  The lemmas
  \<open>call_handler_invokes\<close> and \<open>dispatch_invokes\<close> below tie these to the handlers.
\<close>

datatype gateway_invocation =
    Inv_SearchVideos string int64 string
  | Inv_GetChannelInfo string
  | Inv_GetVideoDetails string
  | Inv_GetPlaylistItems string int64
  | Inv_SearchChannels string int64

fun handler_invocation :: "tool_call \<Rightarrow> gateway_invocation" where
  "handler_invocation (Call_search_videos query max_results channel_id) =
     Inv_SearchVideos (field_string query)
       (if field_int64 max_results = 0 then 10 else field_int64 max_results)
       (field_string channel_id)"
| "handler_invocation (Call_get_channel_info channel_id) =
     Inv_GetChannelInfo (field_string channel_id)"
| "handler_invocation (Call_get_video_details video_id) =
     Inv_GetVideoDetails (field_string video_id)"
| "handler_invocation (Call_get_playlist_items playlist_id max_results) =
     Inv_GetPlaylistItems (field_string playlist_id)
       (if field_int64 max_results = 0 then 10 else field_int64 max_results)"
| "handler_invocation (Call_search_channels query max_results) =
     Inv_SearchChannels (field_string query)
       (if field_int64 max_results = 0 then 10 else field_int64 max_results)"

definition invoked :: "tool_call \<Rightarrow> gateway_invocation option" where
  "invoked c =
    (case missing_required c of
       Some name \<Rightarrow> None
     | None \<Rightarrow> Some (handler_invocation c))"

fun passed_max_results :: "gateway_invocation \<Rightarrow> int64 option" where
  "passed_max_results (Inv_SearchVideos query maxResults channelID) = Some maxResults"
| "passed_max_results (Inv_GetChannelInfo channelID) = None"
| "passed_max_results (Inv_GetVideoDetails videoID) = None"
| "passed_max_results (Inv_GetPlaylistItems playlistID maxResults) = Some maxResults"
| "passed_max_results (Inv_SearchChannels query maxResults) = Some maxResults"

fun perform :: "(string \<Rightarrow> string) \<Rightarrow> YouTubeClient \<Rightarrow> gateway_invocation \<Rightarrow> tool_outcome" where
  "perform q yc (Inv_SearchVideos query maxResults channelID) =
     (case SearchVideos yc query maxResults channelID of
        Inl err \<Rightarrow> ToolError (''failed to search videos: '' @ err)
      | Inr results \<Rightarrow> list_reply q project_search_video results)"
| "perform q yc (Inv_GetChannelInfo channelID) =
     (case GetChannelInfo yc channelID of
        Inl err \<Rightarrow> ToolError (''failed to get channel info: '' @ err)
      | Inr channel \<Rightarrow> object_reply q project_channel channel)"
| "perform q yc (Inv_GetVideoDetails videoID) =
     (case GetVideoDetails yc videoID of
        Inl err \<Rightarrow> ToolError (''failed to get video details: '' @ err)
      | Inr video \<Rightarrow> object_reply q project_video video)"
| "perform q yc (Inv_GetPlaylistItems playlistID maxResults) =
     (case GetPlaylistItems yc playlistID maxResults of
        Inl err \<Rightarrow> ToolError (''failed to get playlist items: '' @ err)
      | Inr items \<Rightarrow> list_reply q project_playlist_item items)"
| "perform q yc (Inv_SearchChannels query maxResults) =
     (case SearchChannels yc query maxResults of
        Inl err \<Rightarrow> ToolError (''failed to search channels: '' @ err)
      | Inr results \<Rightarrow> list_reply q project_search_channel results)"

section \<open>Example upstream data\<close>

definition demo_thumbnails :: ThumbnailDetails where
  "demo_thumbnails = \<lparr>td_Medium = Some \<lparr>th_Url = ''https://i.ytimg.com/vi/v1/mqdefault.jpg''\<rparr>\<rparr>"

definition demo_search_result :: SearchResult where
  "demo_search_result =
    \<lparr>sr_Id = Some \<lparr>rid_VideoId = ''v1'', rid_ChannelId = ''''\<rparr>,
     sr_Snippet = Some \<lparr>srs_Title = ''Go'', srs_Description = '''', srs_ChannelId = ''UC1'',
       srs_ChannelTitle = ''Gophers'', srs_PublishedAt = ''2024-01-01T00:00:00Z'',
       srs_Thumbnails = Some demo_thumbnails\<rparr>\<rparr>"

definition demo_channel :: Channel where
  "demo_channel =
    \<lparr>ch_Id = ''UC1'',
     ch_Snippet = Some \<lparr>chs_Title = ''Gophers'', chs_Description = '''', chs_CustomUrl = '''',
       chs_PublishedAt = ''2020-01-01T00:00:00Z'', chs_Country = '''',
       chs_Thumbnails = Some demo_thumbnails\<rparr>,
     ch_Statistics = Some \<lparr>cst_SubscriberCount = 7, cst_VideoCount = 2, cst_ViewCount = 40\<rparr>\<rparr>"

text \<open>A video whose snippet carries no tags and whose thumbnails are present.\<close>

definition demo_video :: Video where
  "demo_video =
    \<lparr>v_Id = ''v1'',
     v_Snippet = Some \<lparr>vs_Title = ''Go'', vs_Description = '''', vs_ChannelId = ''UC1'',
       vs_ChannelTitle = ''Gophers'', vs_PublishedAt = ''2024-01-01T00:00:00Z'',
       vs_Thumbnails = Some demo_thumbnails, vs_Tags = None, vs_CategoryId = ''28''\<rparr>,
     v_Statistics = Some \<lparr>vst_ViewCount = 40, vst_LikeCount = 3, vst_CommentCount = 0\<rparr>,
     v_ContentDetails = Some \<lparr>vcd_Duration = ''PT1M''\<rparr>\<rparr>"

text \<open>The same video as the platform returns it when it has no medium thumbnail.\<close>

definition demo_video_no_medium :: Video where
  "demo_video_no_medium =
    demo_video\<lparr>v_Snippet := Some \<lparr>vs_Title = ''Go'', vs_Description = '''', vs_ChannelId = ''UC1'',
       vs_ChannelTitle = ''Gophers'', vs_PublishedAt = ''2024-01-01T00:00:00Z'',
       vs_Thumbnails = Some \<lparr>td_Medium = None\<rparr>, vs_Tags = None, vs_CategoryId = ''28''\<rparr>\<rparr>"

definition demo_playlist_item :: PlaylistItem where
  "demo_playlist_item =
    \<lparr>pi_ContentDetails = Some \<lparr>picd_VideoId = ''v1''\<rparr>,
     pi_Snippet = Some \<lparr>pis_Title = ''Go'', pis_Description = '''', pis_ChannelId = ''UC1'',
       pis_ChannelTitle = ''Gophers'', pis_PublishedAt = ''2024-01-01T00:00:00Z'',
       pis_Position = 0, pis_Thumbnails = Some demo_thumbnails\<rparr>\<rparr>"

text \<open>
  A platform that knows one video, one channel and one playlist: any search finds the
  video, and a lookup by another id succeeds with no items.
\<close>

definition demo_service :: Service where
  "demo_service =
    \<lparr>search_do = (\<lambda>c. if sl_q c = Some ''nothing'' then Inr [] else Inr [demo_search_result]),
     channels_do = (\<lambda>c. if cl_id c = Some [''UC1''] then Inr [demo_channel]
                         else if cl_mine c = Some True then Inl ''401 login required''
                         else Inr []),
     videos_do = (\<lambda>c. if vl_id c = Some [''v1''] then Inr [demo_video]
                       else if vl_id c = Some [''v2''] then Inr [demo_video_no_medium]
                       else Inr []),
     playlist_items_do = (\<lambda>c. if pl_playlistId c = Some ''PL1'' then Inr [demo_playlist_item]
                               else Inr [])\<rparr>"

definition demo_config :: Config where
  "demo_config =
    \<lparr>YouTubeAPIKey = ''key'', OAuth2CredentialsFile = ''client_secret.json'',
     TokenFile = ''token.json'', ServerName = ''youtube-mcp-server'', ServerVersion = ''1.0.0'',
     ServerDescription = ''YouTube Data API v3 MCP Server for video search, channel info, and more''\<rparr>"

definition demo_client :: YouTubeClient where
  "demo_client = \<lparr>yc_service = demo_service, yc_config = demo_config\<rparr>"

section \<open>The process and its surroundings\<close>

text \<open>
  A file holds bytes that the process can read and write (\<open>Bytes\<close>), or bytes that it can
  read and not write (\<open>ReadOnly\<close>), or exists without being accessible to the process
  (\<open>NoAccess\<close>); a path absent from the map does not exist.  For a path that does not
  exist, \<open>creatable\<close> says whether a file can be created there: its directory exists and
  can be written.  Standard input is the list of the words still to be read.  The trace records what the process does to its surroundings, in order: lines
  logged and printed, files opened, read, created and written, console reads and token
  exchanges.
\<close>

datatype fs_entry = Bytes string | ReadOnly string | NoAccess

datatype event =
    EvLog string
  | EvPrint string
  | EvReadFile string
  | EvOpen string
  | EvCreate string
  | EvWriteFile string
  | EvScan
  | EvExchange string

record world =
  env :: "string \<rightharpoonup> string"
  files :: "string \<rightharpoonup> fs_entry"
  creatable :: "string \<Rightarrow> bool"
  stdin :: "string list"
  trace :: "event list"

text \<open>
  A function that may end the process (\<open>log.Fatalf\<close>, \<open>os.Exit\<close>) either returns a value
  or exits with a status.
\<close>

datatype 'a proc = Return 'a | Exit nat

definition emit :: "event \<Rightarrow> world \<Rightarrow> world" where
  "emit e w = w\<lparr>trace := trace w @ [e]\<rparr>"

definition log_Printf :: "string \<Rightarrow> world \<Rightarrow> world" where
  "log_Printf msg w = emit (EvLog msg) w"

definition log_Fatalf :: "string \<Rightarrow> world \<Rightarrow> 'a proc \<times> world" where
  "log_Fatalf msg w = (Exit 1, emit (EvLog msg) w)"

definition os_Getenv :: "world \<Rightarrow> string \<Rightarrow> string" where
  "os_Getenv w key = (case env w key of None \<Rightarrow> [] | Some v \<Rightarrow> v)"

definition open_error :: "string \<Rightarrow> fs_entry option \<Rightarrow> error" where
  "open_error path f =
    ''open '' @ path @
      (case f of None \<Rightarrow> '': no such file or directory'' | Some _ \<Rightarrow> '': permission denied'')"

definition contents :: "world \<Rightarrow> string \<Rightarrow> error + string" where
  "contents w path =
    (case files w path of
       Some (Bytes b) \<Rightarrow> Inr b
     | Some (ReadOnly b) \<Rightarrow> Inr b
     | f \<Rightarrow> Inl (open_error path f))"

definition os_ReadFile :: "string \<Rightarrow> world \<Rightarrow> (error + string) \<times> world" where
  "os_ReadFile path w = (contents w path, emit (EvReadFile path) w)"

definition os_Open :: "string \<Rightarrow> world \<Rightarrow> (error + string) \<times> world" where
  "os_Open path w = (contents w path, emit (EvOpen path) w)"

text \<open>
  Opening a path for writing (\<open>os.Create\<close>, \<open>os.WriteFile\<close>) succeeds on a file the
  process can write and on an absent path where a file can be created; it fails on a
  read-only file, on an inaccessible file and where the directory is missing.
  \<open>os.Create\<close> truncates the file when it can open it.
\<close>

definition can_create :: "world \<Rightarrow> string \<Rightarrow> bool" where
  "can_create w path =
    (case files w path of
       None \<Rightarrow> creatable w path
     | Some (Bytes b) \<Rightarrow> True
     | Some (ReadOnly b) \<Rightarrow> False
     | Some NoAccess \<Rightarrow> False)"

definition os_Create :: "string \<Rightarrow> world \<Rightarrow> error option \<times> world" where
  "os_Create path w =
    (if can_create w path then
       (None, emit (EvCreate path) (w\<lparr>files := (files w)(path \<mapsto> Bytes [])\<rparr>))
     else (Some (open_error path (files w path)), emit (EvCreate path) w))"


definition fmt_Scan :: "world \<Rightarrow> (error + string) \<times> world" where
  "fmt_Scan w =
    (case stdin w of
       [] \<Rightarrow> (Inl ''EOF'', emit EvScan w)
     | word # rest \<Rightarrow> (Inr word, emit EvScan (w\<lparr>stdin := rest\<rparr>)))"

section \<open>External packages\<close>

record Token =
  AccessToken :: string
  TokenType :: string
  RefreshToken :: string
  Expiry :: int

record oauth2_Config =
  ClientID :: string
  ClientSecret :: string
  AuthURL :: string
  TokenURL :: string
  RedirectURL :: string
  Scopes :: "string list"

datatype http_Client = oauth2_Client oauth2_Config Token

datatype client_option = WithAPIKey string | WithHTTPClient http_Client

text \<open>The keys a JSON configuration file holds; \<open>None\<close> for a key the file leaves out.\<close>

record ConfigFields =
  f_youtube_api_key :: "string option"
  f_oauth2_credentials_file :: "string option"
  f_token_file :: "string option"
  f_server_name :: "string option"
  f_server_version :: "string option"
  f_server_description :: "string option"

text \<open>
  What the packages outside the repository compute is a parameter of the model:
  \<open>youtube.NewService\<close>, \<open>google.ConfigFromJSON\<close> (with the read-only scope), the JSON
  decoder and encoder of \<open>oauth2.Token\<close> (the encoder gives the bytes \<open>Encode\<close> writes),
  \<open>config.AuthCodeURL\<close> and \<open>config.Exchange\<close>, \<open>json.Unmarshal\<close> into a \<open>Config\<close>, the
  parser of \<open>godotenv\<close>, and the string quoting of \<open>encoding/json\<close>.
\<close>

record libs =
  NewService :: "client_option \<Rightarrow> error + Service"
  ConfigFromJSON :: "string \<Rightarrow> error + oauth2_Config"
  DecodeToken :: "string \<Rightarrow> error + Token"
  EncodeToken :: "Token \<Rightarrow> error + string"
  AuthCodeURL :: "oauth2_Config \<Rightarrow> string \<Rightarrow> string"
  Exchange :: "oauth2_Config \<Rightarrow> string \<Rightarrow> error + Token"
  UnmarshalConfig :: "string \<Rightarrow> error + ConfigFields"
  ParseDotenv :: "string \<Rightarrow> error + (string \<times> string) list"
  Quote :: "string \<Rightarrow> string"

section \<open>Credential Broker\<close>

definition tokenFromFile :: "libs \<Rightarrow> string \<Rightarrow> world \<Rightarrow> (error + Token) \<times> world" where
  "tokenFromFile lb file w =
    (case os_Open file w of
       (Inl err, w1) \<Rightarrow> (Inl err, w1)
     | (Inr b, w1) \<Rightarrow> (DecodeToken lb b, w1))"

definition getTokenFromWeb :: "libs \<Rightarrow> oauth2_Config \<Rightarrow> world \<Rightarrow> Token proc \<times> world" where
  "getTokenFromWeb lb config w =
    (let authURL = AuthCodeURL lb config ''state-token'';
         w1 = emit (EvPrint
                (''Go to the following link in your browser then type the authorization code: ''
                   @ [CHR 0x0A] @ authURL @ [CHR 0x0A])) w
     in case fmt_Scan w1 of
          (Inl err, w2) \<Rightarrow> log_Fatalf (''Unable to read authorization code: '' @ err) w2
        | (Inr authCode, w2) \<Rightarrow>
            (case Exchange lb config authCode of
               Inl err \<Rightarrow>
                 log_Fatalf (''Unable to retrieve token from web: '' @ err)
                   (emit (EvExchange authCode) w2)
             | Inr tok \<Rightarrow> (Return tok, emit (EvExchange authCode) w2)))"

text \<open>The result of \<open>Encode\<close> is not checked: when it fails the created file stays empty.\<close>

definition saveToken :: "libs \<Rightarrow> string \<Rightarrow> Token \<Rightarrow> world \<Rightarrow> unit proc \<times> world" where
  "saveToken lb path token w =
    (let w1 = emit (EvPrint (''Saving credential file to: '' @ path @ [CHR 0x0A])) w
     in case os_Create path w1 of
          (Some err, w2) \<Rightarrow> log_Fatalf (''Unable to cache oauth token: '' @ err) w2
        | (None, w2) \<Rightarrow>
            (case EncodeToken lb token of
               Inl err \<Rightarrow> (Return (), w2)
             | Inr b \<Rightarrow> (Return (), w2\<lparr>files := (files w2)(path \<mapsto> Bytes b)\<rparr>)))"

definition getClient :: "libs \<Rightarrow> oauth2_Config \<Rightarrow> string \<Rightarrow> world \<Rightarrow> http_Client proc \<times> world" where
  "getClient lb config tokenFile w =
    (case tokenFromFile lb tokenFile w of
       (Inr tok, w1) \<Rightarrow> (Return (oauth2_Client config tok), w1)
     | (Inl err, w1) \<Rightarrow>
         (case getTokenFromWeb lb config w1 of
            (Exit status, w2) \<Rightarrow> (Exit status, w2)
          | (Return tok, w2) \<Rightarrow>
              (case saveToken lb tokenFile tok w2 of
                 (Exit status, w3) \<Rightarrow> (Exit status, w3)
               | (Return u, w3) \<Rightarrow> (Return (oauth2_Client config tok), w3))))"

definition getOAuth2Client ::
  "libs \<Rightarrow> Config \<Rightarrow> world \<Rightarrow> (error + http_Client) proc \<times> world" where
  "getOAuth2Client lb cfg w =
    (case os_ReadFile (OAuth2CredentialsFile cfg) w of
       (Inl err, w1) \<Rightarrow> (Return (Inl (''unable to read client secret file: '' @ err)), w1)
     | (Inr b, w1) \<Rightarrow>
         (case ConfigFromJSON lb b of
            Inl err \<Rightarrow> (Return (Inl (''unable to parse client secret file: '' @ err)), w1)
          | Inr oauthConfig \<Rightarrow>
              (case getClient lb oauthConfig (TokenFile cfg) w1 of
                 (Exit status, w2) \<Rightarrow> (Exit status, w2)
               | (Return client, w2) \<Rightarrow> (Return (Inr client), w2))))"

text \<open>
  \<open>youtube.NewService\<close> gives either an error and a nil service or a service and no error,
  so \<open>service == nil\<close> after the first step means that no API key is configured or that
  the construction failed.
\<close>

definition NewYouTubeClient ::
  "libs \<Rightarrow> Config \<Rightarrow> world \<Rightarrow> (error + YouTubeClient) proc \<times> world" where
  "NewYouTubeClient lb cfg w =
    (let (service0, w1) =
           (if YouTubeAPIKey cfg \<noteq> [] then
              (case NewService lb (WithAPIKey (YouTubeAPIKey cfg)) of
                 Inl err \<Rightarrow>
                   (None, log_Printf (''Failed to create service with API key: '' @ err) w)
               | Inr s \<Rightarrow> (Some s, w))
            else (None, w))
     in case service0 of
          Some s \<Rightarrow> (Return (Inr \<lparr>yc_service = s, yc_config = cfg\<rparr>), w1)
        | None \<Rightarrow>
            (case getOAuth2Client lb cfg w1 of
               (Exit status, w2) \<Rightarrow> (Exit status, w2)
             | (Return (Inl err), w2) \<Rightarrow>
                 (Return (Inl (''failed to get OAuth2 client: '' @ err)), w2)
             | (Return (Inr client), w2) \<Rightarrow>
                 (case NewService lb (WithHTTPClient client) of
                    Inl err \<Rightarrow> (Return (Inl (''failed to create YouTube service: '' @ err)), w2)
                  | Inr s \<Rightarrow> (Return (Inr \<lparr>yc_service = s, yc_config = cfg\<rparr>), w2))))"

section \<open>Configuration loading\<close>

definition DefaultConfig :: "world \<Rightarrow> Config" where
  "DefaultConfig w =
    \<lparr>YouTubeAPIKey = os_Getenv w ''YOUTUBE_API_KEY'',
     OAuth2CredentialsFile = ''client_secret.json'',
     TokenFile = ''token.json'',
     ServerName = ''youtube-mcp-server'',
     ServerVersion = ''1.0.0'',
     ServerDescription = ''YouTube Data API v3 MCP Server for video search, channel info, and more''\<rparr>"




text \<open>\<open>json.Unmarshal\<close> into an existing struct overwrites the fields the JSON object holds.\<close>

definition override :: "string option \<Rightarrow> string \<Rightarrow> string" where
  "override v old = (case v of None \<Rightarrow> old | Some new \<Rightarrow> new)"

definition apply_fields :: "ConfigFields \<Rightarrow> Config \<Rightarrow> Config" where
  "apply_fields f c =
    \<lparr>YouTubeAPIKey = override (f_youtube_api_key f) (YouTubeAPIKey c),
     OAuth2CredentialsFile = override (f_oauth2_credentials_file f) (OAuth2CredentialsFile c),
     TokenFile = override (f_token_file f) (TokenFile c),
     ServerName = override (f_server_name f) (ServerName c),
     ServerVersion = override (f_server_version f) (ServerVersion c),
     ServerDescription = override (f_server_description f) (ServerDescription c)\<rparr>"


definition LoadConfigFromJSON :: "libs \<Rightarrow> string \<Rightarrow> world \<Rightarrow> (error + Config) \<times> world" where
  "LoadConfigFromJSON lb filename w =
    (let config = DefaultConfig w
     in if files w filename = None then (Inr config, w)
        else
          (case os_ReadFile filename w of
             (Inl err, w1) \<Rightarrow> (Inl err, w1)
           | (Inr dat, w1) \<Rightarrow>
               (case UnmarshalConfig lb dat of
                  Inl err \<Rightarrow> (Inl err, w1)
                | Inr parsed \<Rightarrow>
                    (let config = apply_fields parsed config;
                         apiKey = os_Getenv w1 ''YOUTUBE_API_KEY'';
                         config = (if apiKey \<noteq> [] then config\<lparr>YouTubeAPIKey := apiKey\<rparr>
                                   else config)
                     in (Inr config, w1)))))"



section \<open>The main function\<close>





section \<open>Example surroundings\<close>

definition demo_oauth :: oauth2_Config where
  "demo_oauth =
    \<lparr>ClientID = ''id'', ClientSecret = ''secret'',
     AuthURL = ''https://accounts.google.com/o/oauth2/auth'',
     TokenURL = ''https://oauth2.googleapis.com/token'',
     RedirectURL = ''http://localhost'',
     Scopes = [''https://www.googleapis.com/auth/youtube.readonly'']\<rparr>"

definition demo_token :: Token where
  "demo_token = \<lparr>AccessToken = ''ya29'', TokenType = ''Bearer'', RefreshToken = ''1//r'', Expiry = 1700000000\<rparr>"

text \<open>
  Example packages: the credentials file \<open>CREDS\<close> parses, the token bytes \<open>TOKEN\<close> decode to
  the example token and are what encoding it writes, the authorization code \<open>code\<close> is
  exchanged for it, the API key \<open>bad\<close> is refused, and the configuration file \<open>CONFIG\<close>
  sets the token file and the API key.
\<close>

definition demo_libs :: libs where
  "demo_libs =
    \<lparr>NewService = (\<lambda>opt. if opt = WithAPIKey ''bad'' then Inl ''invalid option'' else Inr demo_service),
     ConfigFromJSON = (\<lambda>b. if b = ''CREDS'' then Inr demo_oauth else Inl ''unexpected end of JSON input''),
     DecodeToken = (\<lambda>b. if b = ''TOKEN'' then Inr demo_token else Inl ''invalid character''),
     EncodeToken = (\<lambda>t. Inr ''TOKEN''),
     AuthCodeURL = (\<lambda>c state. AuthURL c @ [CHR 0x3F] @ ''state='' @ state),
     Exchange = (\<lambda>c code. if code = ''code'' then Inr demo_token else Inl ''invalid_grant''),
     UnmarshalConfig = (\<lambda>b. if b = ''CONFIG''
        then Inr \<lparr>f_youtube_api_key = Some ''filekey'', f_oauth2_credentials_file = None,
                  f_token_file = Some ''file-token.json'', f_server_name = None,
                  f_server_version = None, f_server_description = None\<rparr>
        else Inl ''unexpected end of JSON input''),
     ParseDotenv = (\<lambda>b. Inr []),
     Quote = quote_plain\<rparr>"

definition demo_world :: world where
  "demo_world =
    \<lparr>env = Map.empty,
     files = [''client_secret.json'' \<mapsto> Bytes ''CREDS''],
     creatable = (\<lambda>path. True),
     stdin = [''code''],
     trace = []\<rparr>"


definition demo_env_world :: world where
  "demo_env_world =
    \<lparr>env = [''TOKEN_FILE'' \<mapsto> ''env-token.json'', ''YOUTUBE_API_KEY'' \<mapsto> ''envkey''],
     files = [''config.json'' \<mapsto> Bytes ''CONFIG''],
     creatable = (\<lambda>path. True),
     stdin = [],
     trace = []\<rparr>"


section \<open>Upstream Gateway: the calls issued\<close>

lemma SearchVideos_call:
  "SearchVideos yc query n channelID =
    (case search_do (yc_service yc)
            \<lparr>sl_part = [''snippet''], sl_q = Some query, sl_type = Some [''video''],
             sl_maxResults = Some n, sl_order = Some ''relevance'',
             sl_channelId = (if channelID = '''' then None else Some channelID)\<rparr> of
       Inl err \<Rightarrow> Inl (''error searching videos: '' @ err)
     | Inr items \<Rightarrow> Inr items)"
  by (simp add: SearchVideos_def Search_List_def Search_Q_def Search_Type_def
      Search_MaxResults_def Search_Order_def Search_ChannelId_def)

lemma SearchChannels_call:
  "SearchChannels yc query n =
    (case search_do (yc_service yc)
            \<lparr>sl_part = [''snippet''], sl_q = Some query, sl_type = Some [''channel''],
             sl_maxResults = Some n, sl_order = Some ''relevance'', sl_channelId = None\<rparr> of
       Inl err \<Rightarrow> Inl (''error searching channels: '' @ err)
     | Inr items \<Rightarrow> Inr items)"
  by (simp add: SearchChannels_def Search_List_def Search_Q_def Search_Type_def
      Search_MaxResults_def Search_Order_def)

lemma GetPlaylistItems_call:
  "GetPlaylistItems yc playlistID n =
    (case playlist_items_do (yc_service yc)
            \<lparr>pl_part = [''snippet'', ''contentDetails''], pl_playlistId = Some playlistID,
             pl_maxResults = Some n\<rparr> of
       Inl err \<Rightarrow> Inl (''error getting playlist items: '' @ err)
     | Inr items \<Rightarrow> Inr items)"
  by (simp add: GetPlaylistItems_def PlaylistItems_List_def PlaylistItems_PlaylistId_def
      PlaylistItems_MaxResults_def)

lemma GetChannelInfo_call:
  "GetChannelInfo yc channelID =
    (case channels_do (yc_service yc)
            \<lparr>cl_part = [''snippet'', ''statistics'', ''contentDetails''],
             cl_id = (if channelID = '''' then None else Some [channelID]),
             cl_mine = (if channelID = '''' then Some True else None)\<rparr> of
       Inl err \<Rightarrow> Inl (''error getting channel info: '' @ err)
     | Inr items \<Rightarrow> (case items of [] \<Rightarrow> Inl ''channel not found'' | first # _ \<Rightarrow> Inr first))"
  by (simp add: GetChannelInfo_def Channels_List_def Channels_Id_def Channels_Mine_def)

lemma GetVideoDetails_call:
  "GetVideoDetails yc videoID =
    (case videos_do (yc_service yc)
            \<lparr>vl_part = [''snippet'', ''statistics'', ''contentDetails''], vl_id = Some [videoID]\<rparr> of
       Inl err \<Rightarrow> Inl (''error getting video details: '' @ err)
     | Inr items \<Rightarrow> (case items of [] \<Rightarrow> Inl ''video not found'' | first # _ \<Rightarrow> Inr first))"
  by (simp add: GetVideoDetails_def Videos_List_def Videos_Id_def)

text \<open>
  Claim C7.  For every input, \<open>SearchVideos\<close> issues the upstream search with the type
  fixed to \<open>video\<close> and the order fixed to \<open>relevance\<close>, and sets the channel filter
  exactly when \<open>channelID\<close> is not empty; \<open>SearchChannels\<close> issues it with the type fixed
  to \<open>channel\<close>, the order fixed to \<open>relevance\<close> and no channel filter.  Both pass the
  query and the limit on and return the items, or the upstream error under their prefix.
\<close>

theorem search_type_and_order_fixed:
  "SearchVideos yc query n channelID =
    (case search_do (yc_service yc)
            \<lparr>sl_part = [''snippet''], sl_q = Some query, sl_type = Some [''video''],
             sl_maxResults = Some n, sl_order = Some ''relevance'',
             sl_channelId = (if channelID = '''' then None else Some channelID)\<rparr> of
       Inl err \<Rightarrow> Inl (''error searching videos: '' @ err)
     | Inr items \<Rightarrow> Inr items)
   \<and> SearchChannels yc query n =
    (case search_do (yc_service yc)
            \<lparr>sl_part = [''snippet''], sl_q = Some query, sl_type = Some [''channel''],
             sl_maxResults = Some n, sl_order = Some ''relevance'', sl_channelId = None\<rparr> of
       Inl err \<Rightarrow> Inl (''error searching channels: '' @ err)
     | Inr items \<Rightarrow> Inr items)"
  using SearchVideos_call SearchChannels_call by blast

text \<open>
  Claim C4.  \<open>GetVideoDetails\<close> and \<open>GetChannelInfo\<close> return their not-found error
  (\<open>video not found\<close>, \<open>channel not found\<close>) exactly when the upstream call succeeds with
  no items: never on a transport error, whose message carries the operation's prefix, and
  never on a success with items.  \<open>GetPlaylistItems\<close> has no such check: whenever the
  upstream call succeeds it returns the items as they are, the empty list included.
\<close>

theorem not_found_on_zero_items:
  "(GetVideoDetails yc videoID = Inl ''video not found''
      \<longleftrightarrow> videos_do (yc_service yc)
            \<lparr>vl_part = [''snippet'', ''statistics'', ''contentDetails''], vl_id = Some [videoID]\<rparr>
          = Inr [])
   \<and> (GetChannelInfo yc channelID = Inl ''channel not found''
      \<longleftrightarrow> channels_do (yc_service yc)
            \<lparr>cl_part = [''snippet'', ''statistics'', ''contentDetails''],
             cl_id = (if channelID = '''' then None else Some [channelID]),
             cl_mine = (if channelID = '''' then Some True else None)\<rparr>
          = Inr [])
   \<and> (\<forall>items. playlist_items_do (yc_service yc)
            \<lparr>pl_part = [''snippet'', ''contentDetails''], pl_playlistId = Some playlistID,
             pl_maxResults = Some n\<rparr> = Inr items
        \<longrightarrow> GetPlaylistItems yc playlistID n = Inr items)"
  by (auto simp: GetVideoDetails_call GetChannelInfo_call GetPlaylistItems_call
      split: sum.splits list.splits)

text \<open>
  On the example platform an unknown video and an unknown channel give the not-found
  error and an unknown playlist gives the empty list.
\<close>

theorem not_found_on_zero_items_witness:
  "GetVideoDetails demo_client ''zz'' = Inl ''video not found''
   \<and> GetChannelInfo demo_client ''UCx'' = Inl ''channel not found''
   \<and> GetPlaylistItems demo_client ''PLx'' 5 = Inr []"
  using not_found_on_zero_items [of demo_client "''zz''" "''UCx''" "''PLx''" 5]
  by (simp add: demo_client_def demo_service_def)

section \<open>Tool dispatch: the default of max results\<close>

lemma call_handler_invokes: "call_handler q yc c = perform q yc (handler_invocation c)"
  by (cases c)
    (simp_all add: search_videos_handler_def get_channel_info_handler_def
      get_video_details_handler_def get_playlist_items_handler_def search_channels_handler_def
      Let_def)

lemma dispatch_invokes:
  "dispatch q yc c =
    (case missing_required c of
       Some name \<Rightarrow> InvalidArgument name
     | None \<Rightarrow> Handled (perform q yc (handler_invocation c)))"
  by (simp add: dispatch_def call_handler_invokes split: option.splits)

text \<open>
  Claim C1, as stated, asks of every one of the five tools that a call whose
  \<open>max_results\<close> is 0 or absent passes 10 to the Gateway.  A call of \<open>get_channel_info\<close>
  has no \<open>max_results\<close>; it is accepted, and the handler passes no such value to
  \<open>GetChannelInfo\<close>.
\<close>

theorem max_results_default_counterexample:
  "call_max_results (Call_get_channel_info (Some ''UC1'')) = None
   \<and> invoked (Call_get_channel_info (Some ''UC1'')) = Some (Inv_GetChannelInfo ''UC1'')
   \<and> passed_max_results (Inv_GetChannelInfo ''UC1'') \<noteq> Some 10"
  by (simp add: invoked_def field_string_def)

text \<open>
  Claim C1, amended.  For the three tools that declare \<open>max_results\<close> (\<open>search_videos\<close>,
  \<open>get_playlist_items\<close>, \<open>search_channels\<close>), a call that carries its required argument
  and whose \<open>max_results\<close> is absent or 0 invokes the Gateway method with 10.  The handlers
  of \<open>get_channel_info\<close> and \<open>get_video_details\<close> pass no result limit to the Gateway.  A
  call that lacks a required argument is rejected and invokes no Gateway method.
\<close>

theorem max_results_default_listing_tools:
  "(max_results = None \<or> max_results = Some 0 \<longrightarrow>
      dispatch q yc (Call_search_videos (Some query) max_results channel_id)
        = Handled (perform q yc (Inv_SearchVideos query 10 (field_string channel_id)))
    \<and> invoked (Call_search_videos (Some query) max_results channel_id)
        = Some (Inv_SearchVideos query 10 (field_string channel_id))
    \<and> passed_max_results (Inv_SearchVideos query 10 (field_string channel_id)) = Some 10
    \<and> dispatch q yc (Call_get_playlist_items (Some playlist_id) max_results)
        = Handled (perform q yc (Inv_GetPlaylistItems playlist_id 10))
    \<and> invoked (Call_get_playlist_items (Some playlist_id) max_results)
        = Some (Inv_GetPlaylistItems playlist_id 10)
    \<and> passed_max_results (Inv_GetPlaylistItems playlist_id 10) = Some 10
    \<and> dispatch q yc (Call_search_channels (Some query) max_results)
        = Handled (perform q yc (Inv_SearchChannels query 10))
    \<and> invoked (Call_search_channels (Some query) max_results)
        = Some (Inv_SearchChannels query 10)
    \<and> passed_max_results (Inv_SearchChannels query 10) = Some 10)
   \<and> invoked (Call_get_channel_info channel_id)
        = Some (Inv_GetChannelInfo (field_string channel_id))
   \<and> passed_max_results (Inv_GetChannelInfo (field_string channel_id)) = None
   \<and> invoked (Call_get_video_details (Some video_id)) = Some (Inv_GetVideoDetails video_id)
   \<and> passed_max_results (Inv_GetVideoDetails video_id) = None
   \<and> (\<forall>name. missing_required c = Some name \<longrightarrow>
         dispatch q yc c = InvalidArgument name \<and> invoked c = None)"
  by (auto simp: dispatch_invokes invoked_def field_int64_def field_string_def)

text \<open>
  The three listing tools called without \<open>max_results\<close> on the example platform, and a
  search without a query, which is rejected.
\<close>

theorem max_results_default_listing_tools_witness:
  "dispatch quote_plain demo_client (Call_search_videos (Some ''go'') None None)
        = Handled (perform quote_plain demo_client (Inv_SearchVideos ''go'' 10 []))
    \<and> dispatch quote_plain demo_client (Call_get_playlist_items (Some ''PL1'') None)
        = Handled (perform quote_plain demo_client (Inv_GetPlaylistItems ''PL1'' 10))
    \<and> dispatch quote_plain demo_client (Call_search_channels (Some ''go'') None)
        = Handled (perform quote_plain demo_client (Inv_SearchChannels ''go'' 10))
    \<and> dispatch quote_plain demo_client (Call_search_videos None None None)
        = InvalidArgument ''query''
    \<and> invoked (Call_search_videos None None None) = None"
  using max_results_default_listing_tools
    [where max_results = None and q = quote_plain and yc = demo_client
       and query = "''go''" and channel_id = None and playlist_id = "''PL1''"
       and c = "Call_search_videos None None None"]
  by (simp add: field_string_def)

text \<open>
  Claim C10.  A call of \<open>search_videos\<close>, \<open>get_playlist_items\<close> or \<open>search_channels\<close> with
  a strictly negative \<open>max_results\<close> does not get the default: the handler passes the
  negative value on, and it reaches the upstream call's \<open>maxResults\<close> parameter unchanged.
\<close>

theorem negative_max_results_passed_unchanged:
  "sint n < 0 \<Longrightarrow>
    search_videos_handler q yc \<lparr>sva_Query = query, sva_MaxResults = n, sva_ChannelID = channelID\<rparr>
      = (case search_do (yc_service yc)
            \<lparr>sl_part = [''snippet''], sl_q = Some query, sl_type = Some [''video''],
             sl_maxResults = Some n, sl_order = Some ''relevance'',
             sl_channelId = (if channelID = '''' then None else Some channelID)\<rparr> of
           Inl err \<Rightarrow> ToolError (''failed to search videos: '' @ ''error searching videos: '' @ err)
         | Inr results \<Rightarrow> list_reply q project_search_video results)
    \<and> get_playlist_items_handler q yc \<lparr>gpia_PlaylistID = playlistID, gpia_MaxResults = n\<rparr>
      = (case playlist_items_do (yc_service yc)
            \<lparr>pl_part = [''snippet'', ''contentDetails''], pl_playlistId = Some playlistID,
             pl_maxResults = Some n\<rparr> of
           Inl err \<Rightarrow> ToolError (''failed to get playlist items: '' @ ''error getting playlist items: '' @ err)
         | Inr items \<Rightarrow> list_reply q project_playlist_item items)
    \<and> search_channels_handler q yc \<lparr>sca_Query = query, sca_MaxResults = n\<rparr>
      = (case search_do (yc_service yc)
            \<lparr>sl_part = [''snippet''], sl_q = Some query, sl_type = Some [''channel''],
             sl_maxResults = Some n, sl_order = Some ''relevance'', sl_channelId = None\<rparr> of
           Inl err \<Rightarrow> ToolError (''failed to search channels: '' @ ''error searching channels: '' @ err)
         | Inr results \<Rightarrow> list_reply q project_search_channel results)"
proof -
  assume neg: "sint n < 0"
  then have nz: "n \<noteq> 0" by auto
  show ?thesis
    using nz
    by (simp add: search_videos_handler_def get_playlist_items_handler_def
        search_channels_handler_def SearchVideos_call GetPlaylistItems_call SearchChannels_call
        split: sum.splits)
qed

text \<open>A search with \<open>max_results = -3\<close> on the example platform, for a query with no result.\<close>

theorem negative_max_results_passed_unchanged_witness:
  "sint (- 3 :: int64) < 0
   \<and> search_videos_handler quote_plain demo_client
        \<lparr>sva_Query = ''nothing'', sva_MaxResults = - 3, sva_ChannelID = ''''\<rparr>
      = TextContent ''null''"
  using negative_max_results_passed_unchanged
    [where n = "- 3" and q = quote_plain and yc = demo_client and query = "''nothing''"
       and channelID = "''''" and playlistID = "''PL1''"]
  by (simp add: demo_client_def demo_service_def list_reply_def MarshalIndent_def)

section \<open>Response projection\<close>

text \<open>
  Claim C2, as stated, says that the projection of every upstream record succeeds, with
  empty values where a nested upstream field is missing.  The handlers read the nested
  fields through pointers they do not check: for a video whose thumbnails hold no medium
  thumbnail \<open>get_video_details\<close> ends in a nil dereference instead of a result.
\<close>

theorem projection_total_counterexample:
  "get_video_details_handler quote_plain demo_client \<lparr>gvda_VideoID = ''v2''\<rparr>
     = Panicked NilDereference"
  by (simp add: get_video_details_handler_def GetVideoDetails_call demo_client_def
      demo_service_def object_reply_def project_video_def deref_def demo_video_no_medium_def
      demo_video_def)

text \<open>
  Claim C2, amended.  When the nested objects a handler reads through are present (the id
  or content details, the snippet, its thumbnails and their medium thumbnail, and the
  statistics where they are read), the projection yields the record with every output
  field copied from upstream; a video without tags projects to a record whose \<open>tags\<close> is
  the nil list, which is encoded as \<open>null\<close>.  The projection is defined only under that
  condition: each of the five projections ends in a nil dereference exactly when one of
  the nested objects it reads through is missing.
\<close>

theorem projection_defined_when_nested_present:
  "(sr_Id item = Some rid \<and> sr_Snippet item = Some sn \<and> srs_Thumbnails sn = Some ths
      \<and> td_Medium ths = Some medium \<longrightarrow>
      project_search_video item =
        Inr [(''video_id'', GString (rid_VideoId rid)),
             (''title'', GString (srs_Title sn)),
             (''description'', GString (srs_Description sn)),
             (''channel_id'', GString (srs_ChannelId sn)),
             (''channel_title'', GString (srs_ChannelTitle sn)),
             (''published_at'', GString (srs_PublishedAt sn)),
             (''thumbnail_url'', GString (th_Url medium))]
      \<and> project_search_channel item =
        Inr [(''channel_id'', GString (rid_ChannelId rid)),
             (''title'', GString (srs_Title sn)),
             (''description'', GString (srs_Description sn)),
             (''published_at'', GString (srs_PublishedAt sn)),
             (''thumbnail_url'', GString (th_Url medium))])
   \<and> (ch_Snippet channel = Some csn \<and> chs_Thumbnails csn = Some cths
      \<and> td_Medium cths = Some cmedium \<and> ch_Statistics channel = Some cst \<longrightarrow>
      project_channel channel =
        Inr [(''channel_id'', GString (ch_Id channel)),
             (''title'', GString (chs_Title csn)),
             (''description'', GString (chs_Description csn)),
             (''custom_url'', GString (chs_CustomUrl csn)),
             (''published_at'', GString (chs_PublishedAt csn)),
             (''country'', GString (chs_Country csn)),
             (''thumbnail_url'', GString (th_Url cmedium)),
             (''subscriber_count'', GUint64 (cst_SubscriberCount cst)),
             (''video_count'', GUint64 (cst_VideoCount cst)),
             (''view_count'', GUint64 (cst_ViewCount cst))])
   \<and> (v_Statistics video = Some vst \<and> v_Snippet video = Some vsn
      \<and> v_ContentDetails video = Some vcd \<and> vs_Thumbnails vsn = Some vths
      \<and> td_Medium vths = Some vmedium \<longrightarrow>
      project_video video =
        Inr [(''video_id'', GString (v_Id video)),
             (''title'', GString (vs_Title vsn)),
             (''description'', GString (vs_Description vsn)),
             (''channel_id'', GString (vs_ChannelId vsn)),
             (''channel_title'', GString (vs_ChannelTitle vsn)),
             (''published_at'', GString (vs_PublishedAt vsn)),
             (''duration'', GString (vcd_Duration vcd)),
             (''thumbnail_url'', GString (th_Url vmedium)),
             (''view_count'', GUint64 (vst_ViewCount vst)),
             (''like_count'', GUint64 (vst_LikeCount vst)),
             (''comment_count'', GUint64 (vst_CommentCount vst)),
             (''tags'', GStrings (vs_Tags vsn)),
             (''category_id'', GString (vs_CategoryId vsn))]
      \<and> (vs_Tags vsn = None \<longrightarrow> gvalue_json (GStrings (vs_Tags vsn)) = JNull))
   \<and> (pi_ContentDetails pitem = Some pcd \<and> pi_Snippet pitem = Some psn
      \<and> pis_Thumbnails psn = Some pths \<and> td_Medium pths = Some pmedium \<longrightarrow>
      project_playlist_item pitem =
        Inr [(''video_id'', GString (picd_VideoId pcd)),
             (''title'', GString (pis_Title psn)),
             (''description'', GString (pis_Description psn)),
             (''channel_id'', GString (pis_ChannelId psn)),
             (''channel_title'', GString (pis_ChannelTitle psn)),
             (''published_at'', GString (pis_PublishedAt psn)),
             (''position'', GInt64 (pis_Position psn)),
             (''thumbnail_url'', GString (th_Url pmedium))])
   \<and> (project_search_video item = Inl NilDereference \<longleftrightarrow>
        \<not> (\<exists>rid sn ths medium. sr_Id item = Some rid \<and> sr_Snippet item = Some sn
             \<and> srs_Thumbnails sn = Some ths \<and> td_Medium ths = Some medium))
   \<and> (project_search_channel item = Inl NilDereference \<longleftrightarrow>
        \<not> (\<exists>rid sn ths medium. sr_Id item = Some rid \<and> sr_Snippet item = Some sn
             \<and> srs_Thumbnails sn = Some ths \<and> td_Medium ths = Some medium))
   \<and> (project_channel channel = Inl NilDereference \<longleftrightarrow>
        \<not> (\<exists>csn cths cmedium cst. ch_Snippet channel = Some csn
             \<and> chs_Thumbnails csn = Some cths \<and> td_Medium cths = Some cmedium
             \<and> ch_Statistics channel = Some cst))
   \<and> (project_video video = Inl NilDereference \<longleftrightarrow>
        \<not> (\<exists>vst vsn vcd vths vmedium. v_Statistics video = Some vst
             \<and> v_Snippet video = Some vsn \<and> v_ContentDetails video = Some vcd
             \<and> vs_Thumbnails vsn = Some vths \<and> td_Medium vths = Some vmedium))
   \<and> (project_playlist_item pitem = Inl NilDereference \<longleftrightarrow>
        \<not> (\<exists>pcd psn pths pmedium. pi_ContentDetails pitem = Some pcd
             \<and> pi_Snippet pitem = Some psn \<and> pis_Thumbnails psn = Some pths
             \<and> td_Medium pths = Some pmedium))"
proof -
  have sv: "project_search_video item = Inl NilDereference \<longleftrightarrow>
        \<not> (\<exists>rid sn ths medium. sr_Id item = Some rid \<and> sr_Snippet item = Some sn
             \<and> srs_Thumbnails sn = Some ths \<and> td_Medium ths = Some medium)"
    by (auto simp: project_search_video_def deref_def split: option.splits)
  have sc: "project_search_channel item = Inl NilDereference \<longleftrightarrow>
        \<not> (\<exists>rid sn ths medium. sr_Id item = Some rid \<and> sr_Snippet item = Some sn
             \<and> srs_Thumbnails sn = Some ths \<and> td_Medium ths = Some medium)"
    by (auto simp: project_search_channel_def deref_def split: option.splits)
  have ch: "project_channel channel = Inl NilDereference \<longleftrightarrow>
        \<not> (\<exists>csn cths cmedium cst. ch_Snippet channel = Some csn
             \<and> chs_Thumbnails csn = Some cths \<and> td_Medium cths = Some cmedium
             \<and> ch_Statistics channel = Some cst)"
    by (auto simp: project_channel_def deref_def split: option.splits)
  have vd: "project_video video = Inl NilDereference \<longleftrightarrow>
        \<not> (\<exists>vst vsn vcd vths vmedium. v_Statistics video = Some vst
             \<and> v_Snippet video = Some vsn \<and> v_ContentDetails video = Some vcd
             \<and> vs_Thumbnails vsn = Some vths \<and> td_Medium vths = Some vmedium)"
    by (auto simp: project_video_def deref_def Let_def split: option.splits)
  have pl: "project_playlist_item pitem = Inl NilDereference \<longleftrightarrow>
        \<not> (\<exists>pcd psn pths pmedium. pi_ContentDetails pitem = Some pcd
             \<and> pi_Snippet pitem = Some psn \<and> pis_Thumbnails psn = Some pths
             \<and> td_Medium pths = Some pmedium)"
    by (auto simp: project_playlist_item_def deref_def split: option.splits)
  show ?thesis
    apply (intro conjI)
            apply (simp add: project_search_video_def project_search_channel_def deref_def)
           apply (simp add: project_channel_def deref_def)
          apply (simp add: project_video_def deref_def)
         apply (simp add: project_playlist_item_def deref_def)
        apply (rule sv)
       apply (rule sc)
      apply (rule ch)
     apply (rule vd)
    apply (rule pl)
    done
qed

text \<open>
  The example records have every nested object; the example video has no tags, and its
  record holds the nil list under \<open>tags\<close>.
\<close>

theorem projection_defined_when_nested_present_witness:
  "project_search_video demo_search_result =
        Inr [(''video_id'', GString ''v1''),
             (''title'', GString ''Go''),
             (''description'', GString []),
             (''channel_id'', GString ''UC1''),
             (''channel_title'', GString ''Gophers''),
             (''published_at'', GString ''2024-01-01T00:00:00Z''),
             (''thumbnail_url'', GString ''https://i.ytimg.com/vi/v1/mqdefault.jpg'')]
   \<and> map_of (projr (project_channel demo_channel)) ''subscriber_count'' = Some (GUint64 7)
   \<and> map_of (projr (project_video demo_video)) ''tags'' = Some (GStrings None)
   \<and> map_of (projr (project_playlist_item demo_playlist_item)) ''position'' = Some (GInt64 0)
   \<and> project_video demo_video_no_medium = Inl NilDereference"
proof -
  note present = projection_defined_when_nested_present
    [where item = demo_search_result and rid = "the (sr_Id demo_search_result)"
       and sn = "the (sr_Snippet demo_search_result)" and ths = demo_thumbnails
       and medium = "the (td_Medium demo_thumbnails)"
       and channel = demo_channel and csn = "the (ch_Snippet demo_channel)"
       and cths = demo_thumbnails and cmedium = "the (td_Medium demo_thumbnails)"
       and cst = "the (ch_Statistics demo_channel)"
       and video = demo_video and vst = "the (v_Statistics demo_video)"
       and vsn = "the (v_Snippet demo_video)" and vcd = "the (v_ContentDetails demo_video)"
       and vths = demo_thumbnails and vmedium = "the (td_Medium demo_thumbnails)"
       and pitem = demo_playlist_item and pcd = "the (pi_ContentDetails demo_playlist_item)"
       and psn = "the (pi_Snippet demo_playlist_item)" and pths = demo_thumbnails
       and pmedium = "the (td_Medium demo_thumbnails)"]
  have records: "project_search_video demo_search_result =
        Inr [(''video_id'', GString ''v1''),
             (''title'', GString ''Go''),
             (''description'', GString []),
             (''channel_id'', GString ''UC1''),
             (''channel_title'', GString ''Gophers''),
             (''published_at'', GString ''2024-01-01T00:00:00Z''),
             (''thumbnail_url'', GString ''https://i.ytimg.com/vi/v1/mqdefault.jpg'')]
   \<and> map_of (projr (project_channel demo_channel)) ''subscriber_count'' = Some (GUint64 7)
   \<and> map_of (projr (project_video demo_video)) ''tags'' = Some (GStrings None)
   \<and> map_of (projr (project_playlist_item demo_playlist_item)) ''position'' = Some (GInt64 0)"
    using present
    by (simp add: demo_search_result_def demo_channel_def demo_video_def demo_playlist_item_def
        demo_thumbnails_def)
  have missing: "\<not> (\<exists>vst vsn vcd vths vmedium. v_Statistics demo_video_no_medium = Some vst
             \<and> v_Snippet demo_video_no_medium = Some vsn
             \<and> v_ContentDetails demo_video_no_medium = Some vcd
             \<and> vs_Thumbnails vsn = Some vths \<and> td_Medium vths = Some vmedium)"
    by (auto simp: demo_video_no_medium_def demo_video_def)
  have "project_video demo_video_no_medium = Inl NilDereference"
    using projection_defined_when_nested_present [where video = demo_video_no_medium] missing
    by blast
  with records show ?thesis by simp
qed

section \<open>The text a listing tool returns\<close>

lemma range_append_Inr:
  "range_append f acc items = Inr out \<Longrightarrow>
     \<exists>ms. length ms = length items \<and>
       out = (if items = [] then acc
              else Some ((case acc of None \<Rightarrow> [] | Some xs \<Rightarrow> xs) @ ms))"
proof (induction items arbitrary: acc)
  case Nil
  then show ?case by simp
next
  case (Cons item items)
  from Cons.prems obtain m where fm: "f item = Inr m"
    and rest: "range_append f (go_append acc m) items = Inr out"
    by (auto split: sum.splits)
  from Cons.IH [OF rest] obtain ms where len: "length ms = length items"
    and out: "out = (if items = [] then go_append acc m
              else Some ((case go_append acc m of None \<Rightarrow> [] | Some xs \<Rightarrow> xs) @ ms))"
    by blast
  have "length (m # ms) = length (item # items)" using len by simp
  moreover have "out = Some ((case acc of None \<Rightarrow> [] | Some xs \<Rightarrow> xs) @ (m # ms))"
    using out len by (cases acc) (auto simp: go_append_def)
  ultimately show ?case by (intro exI [of _ "m # ms"]) simp
qed

lemma render_array_brackets:
  "vs \<noteq> [] \<Longrightarrow> hd (MarshalIndent q (JArray vs)) = CHR ''[''
     \<and> last (MarshalIndent q (JArray vs)) = CHR '']''"
  by (simp add: MarshalIndent_def)

lemma list_reply_text:
  assumes "list_reply q f items = TextContent t"
  shows "(items = [] \<longrightarrow> t = ''null'')
    \<and> (items \<noteq> [] \<longrightarrow> (\<exists>ms. length ms = length items
           \<and> t = MarshalIndent q (JArray (map gmap_json ms)))
         \<and> hd t = CHR ''['' \<and> last t = CHR '']'')"
proof -
  from assms obtain out where ra: "range_append f None items = Inr out"
    and t: "t = MarshalIndent q (gmaps_json out)"
    by (auto simp: list_reply_def split: sum.splits)
  from range_append_Inr [OF ra] obtain ms where len: "length ms = length items"
    and out: "out = (if items = [] then None else Some ms)"
    by auto
  show ?thesis
  proof (cases "items = []")
    case True
    then show ?thesis using t out by (simp add: MarshalIndent_def)
  next
    case False
    then have ne: "map gmap_json ms \<noteq> []" using len by auto
    have "t = MarshalIndent q (JArray (map gmap_json ms))" using False t out by simp
    then show ?thesis using False len render_array_brackets [OF ne, of q] by auto
  qed
qed

text \<open>
  Claim C8, as stated, says that the text of every successful listing call is a JSON
  array, also for zero items.  The handlers collect the records in a slice that starts
  nil and stays nil when there is no item, and a nil slice is encoded as \<open>null\<close>: a search
  that finds nothing returns the text \<open>null\<close>, which does not start with a bracket.
\<close>

theorem listing_text_array_counterexample:
  "search_videos_handler quote_plain demo_client
      \<lparr>sva_Query = ''nothing'', sva_MaxResults = 5, sva_ChannelID = ''''\<rparr>
     = TextContent ''null''
   \<and> hd ''null'' \<noteq> CHR ''[''"
  by (simp add: search_videos_handler_def SearchVideos_call demo_client_def demo_service_def
      list_reply_def MarshalIndent_def)

text \<open>
  Claim C8, amended.  For every successful call of \<open>search_videos\<close>, \<open>search_channels\<close> or
  \<open>get_playlist_items\<close> whose upstream response holds at least one item, the returned
  text is the encoding of a JSON array with one element per item: it starts with \<open>[\<close> and
  ends with \<open>]\<close>.  When the upstream response holds no item the returned text is \<open>null\<close>.
\<close>

theorem listing_text_array_unless_no_items:
  "(search_videos_handler q yc a = TextContent t \<longrightarrow>
      (\<exists>items. SearchVideos yc (sva_Query a)
                  (if sva_MaxResults a = 0 then 10 else sva_MaxResults a) (sva_ChannelID a)
                = Inr items
         \<and> (items = [] \<longrightarrow> t = ''null'')
         \<and> (items \<noteq> [] \<longrightarrow>
              (\<exists>ms. length ms = length items \<and> t = MarshalIndent q (JArray (map gmap_json ms)))
              \<and> hd t = CHR ''['' \<and> last t = CHR '']'')))
   \<and> (search_channels_handler q yc b = TextContent t \<longrightarrow>
      (\<exists>items. SearchChannels yc (sca_Query b)
                  (if sca_MaxResults b = 0 then 10 else sca_MaxResults b)
                = Inr items
         \<and> (items = [] \<longrightarrow> t = ''null'')
         \<and> (items \<noteq> [] \<longrightarrow>
              (\<exists>ms. length ms = length items \<and> t = MarshalIndent q (JArray (map gmap_json ms)))
              \<and> hd t = CHR ''['' \<and> last t = CHR '']'')))
   \<and> (get_playlist_items_handler q yc c = TextContent t \<longrightarrow>
      (\<exists>items. GetPlaylistItems yc (gpia_PlaylistID c)
                  (if gpia_MaxResults c = 0 then 10 else gpia_MaxResults c)
                = Inr items
         \<and> (items = [] \<longrightarrow> t = ''null'')
         \<and> (items \<noteq> [] \<longrightarrow>
              (\<exists>ms. length ms = length items \<and> t = MarshalIndent q (JArray (map gmap_json ms)))
              \<and> hd t = CHR ''['' \<and> last t = CHR '']'')))"
proof (intro conjI impI)
  assume h: "search_videos_handler q yc a = TextContent t"
  then obtain items where g: "SearchVideos yc (sva_Query a)
        (if sva_MaxResults a = 0 then 10 else sva_MaxResults a) (sva_ChannelID a) = Inr items"
    and r: "list_reply q project_search_video items = TextContent t"
    by (auto simp: search_videos_handler_def Let_def split: sum.splits if_splits)
  from g list_reply_text [OF r]
  show "\<exists>items. SearchVideos yc (sva_Query a)
                  (if sva_MaxResults a = 0 then 10 else sva_MaxResults a) (sva_ChannelID a)
                = Inr items
         \<and> (items = [] \<longrightarrow> t = ''null'')
         \<and> (items \<noteq> [] \<longrightarrow>
              (\<exists>ms. length ms = length items \<and> t = MarshalIndent q (JArray (map gmap_json ms)))
              \<and> hd t = CHR ''['' \<and> last t = CHR '']'')"
    by blast
next
  assume h: "search_channels_handler q yc b = TextContent t"
  then obtain items where g: "SearchChannels yc (sca_Query b)
        (if sca_MaxResults b = 0 then 10 else sca_MaxResults b) = Inr items"
    and r: "list_reply q project_search_channel items = TextContent t"
    by (auto simp: search_channels_handler_def Let_def split: sum.splits if_splits)
  from g list_reply_text [OF r]
  show "\<exists>items. SearchChannels yc (sca_Query b)
                  (if sca_MaxResults b = 0 then 10 else sca_MaxResults b)
                = Inr items
         \<and> (items = [] \<longrightarrow> t = ''null'')
         \<and> (items \<noteq> [] \<longrightarrow>
              (\<exists>ms. length ms = length items \<and> t = MarshalIndent q (JArray (map gmap_json ms)))
              \<and> hd t = CHR ''['' \<and> last t = CHR '']'')"
    by blast
next
  assume h: "get_playlist_items_handler q yc c = TextContent t"
  then obtain items where g: "GetPlaylistItems yc (gpia_PlaylistID c)
        (if gpia_MaxResults c = 0 then 10 else gpia_MaxResults c) = Inr items"
    and r: "list_reply q project_playlist_item items = TextContent t"
    by (auto simp: get_playlist_items_handler_def Let_def split: sum.splits if_splits)
  from g list_reply_text [OF r]
  show "\<exists>items. GetPlaylistItems yc (gpia_PlaylistID c)
                  (if gpia_MaxResults c = 0 then 10 else gpia_MaxResults c)
                = Inr items
         \<and> (items = [] \<longrightarrow> t = ''null'')
         \<and> (items \<noteq> [] \<longrightarrow>
              (\<exists>ms. length ms = length items \<and> t = MarshalIndent q (JArray (map gmap_json ms)))
              \<and> hd t = CHR ''['' \<and> last t = CHR '']'')"
    by blast
qed

text \<open>
  On the example platform a search that finds the example video, a channel search and the
  listing of the example playlist each return a text that starts with \<open>[\<close> and ends with
  \<open>]\<close>.
\<close>

theorem listing_text_array_unless_no_items_witness:
  "(\<exists>t. search_videos_handler quote_plain demo_client
           \<lparr>sva_Query = ''go'', sva_MaxResults = 0, sva_ChannelID = ''''\<rparr> = TextContent t
        \<and> hd t = CHR ''['' \<and> last t = CHR '']'')
   \<and> (\<exists>t. search_channels_handler quote_plain demo_client
           \<lparr>sca_Query = ''go'', sca_MaxResults = 0\<rparr> = TextContent t
        \<and> hd t = CHR ''['' \<and> last t = CHR '']'')
   \<and> (\<exists>t. get_playlist_items_handler quote_plain demo_client
           \<lparr>gpia_PlaylistID = ''PL1'', gpia_MaxResults = 0\<rparr> = TextContent t
        \<and> hd t = CHR ''['' \<and> last t = CHR '']'')"
proof (intro conjI)
  let ?a = "\<lparr>sva_Query = ''go'', sva_MaxResults = 0, sva_ChannelID = ''''\<rparr>"
  obtain t where h: "search_videos_handler quote_plain demo_client ?a = TextContent t"
    by (simp add: search_videos_handler_def SearchVideos_call demo_client_def demo_service_def
        list_reply_def project_search_video_def deref_def demo_search_result_def
        demo_thumbnails_def go_append_def)
  have g: "SearchVideos demo_client ''go'' 10 '''' = Inr [demo_search_result]"
    by (simp add: SearchVideos_call demo_client_def demo_service_def)
  from listing_text_array_unless_no_items
         [where q = quote_plain and yc = demo_client and a = ?a and t = t,
          THEN conjunct1, rule_format, OF h] g
  have "hd t = CHR ''['' \<and> last t = CHR '']''" by auto
  with h show "\<exists>t. search_videos_handler quote_plain demo_client ?a = TextContent t
        \<and> hd t = CHR ''['' \<and> last t = CHR '']''" by blast
next
  let ?b = "\<lparr>sca_Query = ''go'', sca_MaxResults = 0\<rparr>"
  obtain t where h: "search_channels_handler quote_plain demo_client ?b = TextContent t"
    by (simp add: search_channels_handler_def SearchChannels_call demo_client_def demo_service_def
        list_reply_def project_search_channel_def deref_def demo_search_result_def
        demo_thumbnails_def go_append_def)
  have g: "SearchChannels demo_client ''go'' 10 = Inr [demo_search_result]"
    by (simp add: SearchChannels_call demo_client_def demo_service_def)
  from listing_text_array_unless_no_items
         [where q = quote_plain and yc = demo_client and b = ?b and t = t,
          THEN conjunct2, THEN conjunct1, rule_format, OF h] g
  have "hd t = CHR ''['' \<and> last t = CHR '']''" by auto
  with h show "\<exists>t. search_channels_handler quote_plain demo_client ?b = TextContent t
        \<and> hd t = CHR ''['' \<and> last t = CHR '']''" by blast
next
  let ?c = "\<lparr>gpia_PlaylistID = ''PL1'', gpia_MaxResults = 0\<rparr>"
  obtain t where h: "get_playlist_items_handler quote_plain demo_client ?c = TextContent t"
    by (simp add: get_playlist_items_handler_def GetPlaylistItems_call demo_client_def
        demo_service_def list_reply_def project_playlist_item_def deref_def
        demo_playlist_item_def demo_thumbnails_def go_append_def)
  have g: "GetPlaylistItems demo_client ''PL1'' 10 = Inr [demo_playlist_item]"
    by (simp add: GetPlaylistItems_call demo_client_def demo_service_def)
  from listing_text_array_unless_no_items
         [where q = quote_plain and yc = demo_client and c = ?c and t = t,
          THEN conjunct2, THEN conjunct2, rule_format, OF h] g
  have "hd t = CHR ''['' \<and> last t = CHR '']''" by auto
  with h show "\<exists>t. get_playlist_items_handler quote_plain demo_client ?c = TextContent t
        \<and> hd t = CHR ''['' \<and> last t = CHR '']''" by blast
qed

section \<open>Credential Broker: API key first, then OAuth2\<close>

lemma files_emit [simp]: "files (emit e w) = files w"
  by (simp add: emit_def)

lemma creatable_emit [simp]: "creatable (emit e w) = creatable w"
  by (simp add: emit_def)

lemma stdin_emit [simp]: "stdin (emit e w) = stdin w"
  by (simp add: emit_def)

lemma contents_emit [simp]: "contents (emit e w) p = contents w p"
  by (simp add: contents_def)

lemma can_create_emit [simp]: "can_create (emit e w) p = can_create w p"
  by (simp add: can_create_def split: option.splits fs_entry.splits)

lemma files_log_Printf [simp]: "files (log_Printf m w) = files w"
  by (simp add: log_Printf_def)

lemma creatable_log_Printf [simp]: "creatable (log_Printf m w) = creatable w"
  by (simp add: log_Printf_def)

lemma stdin_log_Printf [simp]: "stdin (log_Printf m w) = stdin w"
  by (simp add: log_Printf_def)

lemma contents_log_Printf [simp]: "contents (log_Printf m w) p = contents w p"
  by (simp add: log_Printf_def)

lemma can_create_log_Printf [simp]: "can_create (log_Printf m w) p = can_create w p"
  by (simp add: log_Printf_def)

lemma tokenFromFile_trace:
  "tokenFromFile lb p w = (r, w') \<Longrightarrow> \<exists>evs. trace w' = trace w @ evs"
  by (auto simp: tokenFromFile_def os_Open_def emit_def split: sum.splits)

lemma getTokenFromWeb_trace:
  "getTokenFromWeb lb c w = (r, w') \<Longrightarrow> \<exists>evs. trace w' = trace w @ evs"
  by (auto simp: getTokenFromWeb_def fmt_Scan_def log_Fatalf_def Let_def emit_def
      split: sum.splits list.splits)

lemma saveToken_trace:
  "saveToken lb p t w = (r, w') \<Longrightarrow> \<exists>evs. trace w' = trace w @ evs"
  by (auto simp: saveToken_def os_Create_def log_Fatalf_def Let_def emit_def
      split: sum.splits if_splits)

lemma getClient_trace:
  assumes "getClient lb c p w = (r, w')"
  shows "\<exists>evs. trace w' = trace w @ evs"
proof (cases "tokenFromFile lb p w")
  case (Pair r1 w1)
  note cached = this
  from tokenFromFile_trace [OF cached] obtain e1 where t1: "trace w1 = trace w @ e1" by blast
  show ?thesis
  proof (cases r1)
    case (Inr tok)
    with assms cached t1 show ?thesis by (auto simp: getClient_def)
  next
    case (Inl err)
    show ?thesis
    proof (cases "getTokenFromWeb lb c w1")
      case (Pair r2 w2)
      note web = this
      from getTokenFromWeb_trace [OF web] obtain e2 where t2: "trace w2 = trace w1 @ e2" by blast
      show ?thesis
      proof (cases r2)
        case (Exit status)
        with assms cached Inl web t1 t2 show ?thesis
          by (auto simp: getClient_def)
      next
        case (Return tok)
        show ?thesis
        proof (cases "saveToken lb p tok w2")
          case (Pair r3 w3)
          from saveToken_trace [OF Pair] obtain e3 where t3: "trace w3 = trace w2 @ e3" by blast
          from assms cached Inl web Return Pair
          have "w' = w3" by (auto simp: getClient_def split: proc.splits)
          with t1 t2 t3 show ?thesis by simp
        qed
      qed
    qed
  qed
qed

lemma getOAuth2Client_reads:
  assumes "getOAuth2Client lb cfg w = (r, w')"
  shows "EvReadFile (OAuth2CredentialsFile cfg) \<in> set (trace w')"
proof -
  let ?w1 = "emit (EvReadFile (OAuth2CredentialsFile cfg)) w"
  have mem: "EvReadFile (OAuth2CredentialsFile cfg) \<in> set (trace ?w1)"
    by (simp add: emit_def)
  have "\<exists>evs. trace w' = trace ?w1 @ evs"
    using assms unfolding getOAuth2Client_def os_ReadFile_def
    by (auto split: sum.splits prod.splits proc.splits dest: getClient_trace)
  with mem show ?thesis by auto
qed

lemma NewYouTubeClient_api_key:
  "YouTubeAPIKey cfg \<noteq> [] \<Longrightarrow> NewService lb (WithAPIKey (YouTubeAPIKey cfg)) = Inr s \<Longrightarrow>
     NewYouTubeClient lb cfg w = (Return (Inr \<lparr>yc_service = s, yc_config = cfg\<rparr>), w)"
  by (simp add: NewYouTubeClient_def)

lemma NewYouTubeClient_oauth2:
  "YouTubeAPIKey cfg = [] \<or> isl (NewService lb (WithAPIKey (YouTubeAPIKey cfg))) \<Longrightarrow>
     EvReadFile (OAuth2CredentialsFile cfg) \<in> set (trace (snd (NewYouTubeClient lb cfg w)))"
proof -
  assume a: "YouTubeAPIKey cfg = [] \<or> isl (NewService lb (WithAPIKey (YouTubeAPIKey cfg)))"
  define w1 where "w1 =
    (if YouTubeAPIKey cfg \<noteq> [] then
       log_Printf (''Failed to create service with API key: ''
          @ projl (NewService lb (WithAPIKey (YouTubeAPIKey cfg)))) w
     else w)"
  obtain r w2 where g: "getOAuth2Client lb cfg w1 = (r, w2)" by (cases "getOAuth2Client lb cfg w1")
  have "snd (NewYouTubeClient lb cfg w) = w2"
    using a g unfolding NewYouTubeClient_def w1_def
    by (auto simp: isl_def split: sum.splits proc.splits)
  with getOAuth2Client_reads [OF g] show ?thesis by simp
qed

text \<open>
  Claim C3.  When the configuration holds a non-empty API key and the construction of the
  API-key handle succeeds, \<open>NewYouTubeClient\<close> returns the client built on that handle and
  does nothing else, whatever OAuth2 credentials are present.  Started from an empty
  trace, it enters the OAuth2 path (it reads the credentials file, the first step of
  \<open>getOAuth2Client\<close>) exactly when the API key is empty or the construction of the API-key
  handle fails.
\<close>

theorem api_key_first_then_oauth2:
  "(YouTubeAPIKey cfg \<noteq> [] \<and> NewService lb (WithAPIKey (YouTubeAPIKey cfg)) = Inr s \<longrightarrow>
      NewYouTubeClient lb cfg w = (Return (Inr \<lparr>yc_service = s, yc_config = cfg\<rparr>), w))
   \<and> (EvReadFile (OAuth2CredentialsFile cfg)
        \<in> set (trace (snd (NewYouTubeClient lb cfg (w\<lparr>trace := []\<rparr>))))
      \<longleftrightarrow> YouTubeAPIKey cfg = [] \<or> isl (NewService lb (WithAPIKey (YouTubeAPIKey cfg))))"
proof (intro conjI impI iffI)
  assume "YouTubeAPIKey cfg \<noteq> [] \<and> NewService lb (WithAPIKey (YouTubeAPIKey cfg)) = Inr s"
  then show "NewYouTubeClient lb cfg w = (Return (Inr \<lparr>yc_service = s, yc_config = cfg\<rparr>), w)"
    by (simp add: NewYouTubeClient_api_key)
next
  assume rd: "EvReadFile (OAuth2CredentialsFile cfg)
        \<in> set (trace (snd (NewYouTubeClient lb cfg (w\<lparr>trace := []\<rparr>))))"
  show "YouTubeAPIKey cfg = [] \<or> isl (NewService lb (WithAPIKey (YouTubeAPIKey cfg)))"
  proof (rule ccontr)
    assume "\<not> ?thesis"
    then obtain s' where "YouTubeAPIKey cfg \<noteq> []"
      and "NewService lb (WithAPIKey (YouTubeAPIKey cfg)) = Inr s'"
      by (cases "NewService lb (WithAPIKey (YouTubeAPIKey cfg))") auto
    from NewYouTubeClient_api_key [OF this] rd show False by simp
  qed
next
  assume "YouTubeAPIKey cfg = [] \<or> isl (NewService lb (WithAPIKey (YouTubeAPIKey cfg)))"
  then show "EvReadFile (OAuth2CredentialsFile cfg)
        \<in> set (trace (snd (NewYouTubeClient lb cfg (w\<lparr>trace := []\<rparr>))))"
    by (rule NewYouTubeClient_oauth2)
qed

text \<open>
  With the example key, and a credentials file present, the credentials file is not read;
  with the key that the example packages refuse, it is.
\<close>

theorem api_key_first_then_oauth2_witness:
  "NewYouTubeClient demo_libs demo_config demo_world
     = (Return (Inr \<lparr>yc_service = demo_service, yc_config = demo_config\<rparr>), demo_world)
   \<and> EvReadFile ''client_secret.json''
        \<notin> set (trace (snd (NewYouTubeClient demo_libs demo_config demo_world)))
   \<and> EvReadFile ''client_secret.json''
        \<in> set (trace (snd (NewYouTubeClient demo_libs (demo_config\<lparr>YouTubeAPIKey := ''bad''\<rparr>)
                 demo_world)))"
proof -
  have k: "YouTubeAPIKey demo_config \<noteq> []
      \<and> NewService demo_libs (WithAPIKey (YouTubeAPIKey demo_config)) = Inr demo_service"
    by (simp add: demo_config_def demo_libs_def)
  have t: "demo_world\<lparr>trace := []\<rparr> = demo_world" by (simp add: demo_world_def)
  have b: "isl (NewService demo_libs (WithAPIKey (YouTubeAPIKey (demo_config\<lparr>YouTubeAPIKey := ''bad''\<rparr>))))"
    by (simp add: demo_libs_def)
  have c: "OAuth2CredentialsFile demo_config = ''client_secret.json''"
    by (simp add: demo_config_def)
  note first = api_key_first_then_oauth2
    [of demo_config demo_libs demo_service demo_world, unfolded t]
  note second = api_key_first_then_oauth2
    [of "demo_config\<lparr>YouTubeAPIKey := ''bad''\<rparr>" demo_libs demo_service demo_world, unfolded t]
  have tr: "trace demo_world = []" by (simp add: demo_world_def)
  show ?thesis
    using k b c tr first second by simp
qed

section \<open>Configuration: environment and JSON file\<close>

text \<open>
  Claim C9, as stated, says that for each of the six options a value in the environment
  replaces the value of the JSON file.  \<open>LoadConfigFromJSON\<close> consults the environment for
  \<open>YOUTUBE_API_KEY\<close> only: with \<open>TOKEN_FILE\<close> set in the environment and \<open>token_file\<close> set
  in the file, the resulting configuration holds the file's value.
\<close>

theorem env_overrides_file_counterexample:
  "os_Getenv demo_env_world ''TOKEN_FILE'' = ''env-token.json''
   \<and> UnmarshalConfig demo_libs ''CONFIG'' =
       Inr \<lparr>f_youtube_api_key = Some ''filekey'', f_oauth2_credentials_file = None,
            f_token_file = Some ''file-token.json'', f_server_name = None,
            f_server_version = None, f_server_description = None\<rparr>
   \<and> (case fst (LoadConfigFromJSON demo_libs ''config.json'' demo_env_world) of
        Inl err \<Rightarrow> False
      | Inr cfg \<Rightarrow> TokenFile cfg = ''file-token.json'' \<and> TokenFile cfg \<noteq> ''env-token.json'')"
  by (simp add: demo_env_world_def demo_libs_def LoadConfigFromJSON_def os_Getenv_def
      os_ReadFile_def contents_def DefaultConfig_def apply_fields_def override_def Let_def)

lemma LoadConfigFromJSON_Inr:
  assumes "LoadConfigFromJSON lb filename w = (Inr cfg, w')"
  shows "(files w filename = None \<and> cfg = DefaultConfig w)
    \<or> (\<exists>dat parsed. contents w filename = Inr dat \<and> UnmarshalConfig lb dat = Inr parsed
        \<and> cfg = (let c = apply_fields parsed (DefaultConfig w);
                     apiKey = os_Getenv w ''YOUTUBE_API_KEY''
                 in if apiKey \<noteq> [] then c\<lparr>YouTubeAPIKey := apiKey\<rparr> else c))"
  using assms
  by (auto simp: LoadConfigFromJSON_def os_ReadFile_def contents_def Let_def os_Getenv_def emit_def
      split: if_splits option.splits fs_entry.splits sum.splits)

text \<open>
  Claim C9, amended.  When a configuration loaded by \<open>LoadConfigFromJSON\<close> has both an
  environment value and a file value, the environment value is the one in the result for
  \<open>youtube_api_key\<close> only (a non-empty \<open>YOUTUBE_API_KEY\<close>); for \<open>oauth2_credentials_file\<close>,
  \<open>token_file\<close>, \<open>server_name\<close>, \<open>server_version\<close> and \<open>server_description\<close> the value of
  the file is the one in the result, and so is the file's API key when \<open>YOUTUBE_API_KEY\<close>
  is empty or unset.
\<close>

theorem json_mode_env_overrides_api_key_only:
  assumes "LoadConfigFromJSON lb filename w = (Inr cfg, w')"
  shows "(os_Getenv w ''YOUTUBE_API_KEY'' \<noteq> [] \<longrightarrow>
            YouTubeAPIKey cfg = os_Getenv w ''YOUTUBE_API_KEY'')
    \<and> (\<forall>dat parsed. contents w filename = Inr dat \<and> UnmarshalConfig lb dat = Inr parsed \<longrightarrow>
          (\<forall>v. f_oauth2_credentials_file parsed = Some v \<longrightarrow> OAuth2CredentialsFile cfg = v)
        \<and> (\<forall>v. f_token_file parsed = Some v \<longrightarrow> TokenFile cfg = v)
        \<and> (\<forall>v. f_server_name parsed = Some v \<longrightarrow> ServerName cfg = v)
        \<and> (\<forall>v. f_server_version parsed = Some v \<longrightarrow> ServerVersion cfg = v)
        \<and> (\<forall>v. f_server_description parsed = Some v \<longrightarrow> ServerDescription cfg = v)
        \<and> (\<forall>v. os_Getenv w ''YOUTUBE_API_KEY'' = [] \<and> f_youtube_api_key parsed = Some v \<longrightarrow>
              YouTubeAPIKey cfg = v))"
proof (rule disjE [OF LoadConfigFromJSON_Inr [OF assms]])
  assume a: "files w filename = None \<and> cfg = DefaultConfig w"
  then have no: "contents w filename \<noteq> Inr dat" for dat
    by (simp add: contents_def)
  from a no show ?thesis by (simp add: DefaultConfig_def)
next
  assume "\<exists>dat parsed. contents w filename = Inr dat \<and> UnmarshalConfig lb dat = Inr parsed
        \<and> cfg = (let c = apply_fields parsed (DefaultConfig w);
                     apiKey = os_Getenv w ''YOUTUBE_API_KEY''
                 in if apiKey \<noteq> [] then c\<lparr>YouTubeAPIKey := apiKey\<rparr> else c)"
  then show ?thesis
    by (auto simp: Let_def DefaultConfig_def apply_fields_def override_def)
qed

text \<open>
  The example: the API key comes from the environment, the token file from the file.
\<close>

theorem json_mode_env_overrides_api_key_only_witness:
  "fst (LoadConfigFromJSON demo_libs ''config.json'' demo_env_world)
     = Inr \<lparr>YouTubeAPIKey = ''envkey'', OAuth2CredentialsFile = ''client_secret.json'',
            TokenFile = ''file-token.json'', ServerName = ''youtube-mcp-server'',
            ServerVersion = ''1.0.0'',
            ServerDescription = ''YouTube Data API v3 MCP Server for video search, channel info, and more''\<rparr>"
proof -
  obtain r w' where l: "LoadConfigFromJSON demo_libs ''config.json'' demo_env_world = (r, w')"
    by (cases "LoadConfigFromJSON demo_libs ''config.json'' demo_env_world")
  then obtain cfg where r: "r = Inr cfg"
    by (auto simp: demo_env_world_def demo_libs_def LoadConfigFromJSON_def os_Getenv_def
      os_ReadFile_def contents_def Let_def)
  have e: "os_Getenv demo_env_world ''YOUTUBE_API_KEY'' = ''envkey''"
    by (simp add: os_Getenv_def demo_env_world_def)
  have f: "contents demo_env_world ''config.json'' = Inr ''CONFIG''"
    by (simp add: demo_env_world_def contents_def)
  have u: "UnmarshalConfig demo_libs ''CONFIG'' =
       Inr \<lparr>f_youtube_api_key = Some ''filekey'', f_oauth2_credentials_file = None,
            f_token_file = Some ''file-token.json'', f_server_name = None,
            f_server_version = None, f_server_description = None\<rparr>"
    by (simp add: demo_libs_def)
  from json_mode_env_overrides_api_key_only [OF l [unfolded r]] e f u
  have "YouTubeAPIKey cfg = ''envkey''" and "TokenFile cfg = ''file-token.json''"
    by auto
  moreover from l r have "OAuth2CredentialsFile cfg = ''client_secret.json''"
    and "ServerName cfg = ''youtube-mcp-server''" and "ServerVersion cfg = ''1.0.0''"
    and "ServerDescription cfg = ''YouTube Data API v3 MCP Server for video search, channel info, and more''"
    by (auto simp: demo_env_world_def demo_libs_def LoadConfigFromJSON_def os_Getenv_def
      os_ReadFile_def contents_def Let_def DefaultConfig_def apply_fields_def override_def)
  ultimately show ?thesis using l r by (cases cfg) simp
qed

section \<open>Credential Broker: failures at startup\<close>

lemma tokenFromFile_fst:
  "fst (tokenFromFile lb tf w) =
    (case contents w tf of Inl err \<Rightarrow> Inl err | Inr b \<Rightarrow> DecodeToken lb b)"
  by (simp add: tokenFromFile_def os_Open_def split: sum.splits)


lemma getTokenFromWeb_files [simp]: "files (snd (getTokenFromWeb lb c w)) = files w"
  by (simp add: getTokenFromWeb_def fmt_Scan_def log_Fatalf_def Let_def emit_def
      split: list.splits sum.splits)

lemma getTokenFromWeb_creatable [simp]: "creatable (snd (getTokenFromWeb lb c w)) = creatable w"
  by (simp add: getTokenFromWeb_def fmt_Scan_def log_Fatalf_def Let_def emit_def
      split: list.splits sum.splits)








lemma getClient_fst_cached:
  "fst (tokenFromFile lb tf w) = Inr tok \<Longrightarrow> fst (getClient lb oc tf w) = Return (oauth2_Client oc tok)"
  by (auto simp: getClient_def split: prod.splits sum.splits)






section \<open>Credential Broker: the token cache\<close>

lemma getClient_cached:
  "files w tf = Some (Bytes b) \<Longrightarrow> DecodeToken lb b = Inr t \<Longrightarrow>
     getClient lb oc tf w = (Return (oauth2_Client oc t), emit (EvOpen tf) w)"
  by (simp add: getClient_def tokenFromFile_def os_Open_def contents_def)

lemma saveToken_Return:
  "saveToken lb p t w = (Return u, w3) \<Longrightarrow>
     files w3 p = Some (Bytes (case EncodeToken lb t of Inl err \<Rightarrow> [] | Inr b \<Rightarrow> b))"
  by (auto simp: saveToken_def os_Create_def log_Fatalf_def Let_def
      split: if_splits sum.splits)

lemma getClient_interactive_saves:
  assumes first: "getClient lb oc tf w = (Return c, w1)"
    and no_cache: "fst (tokenFromFile lb tf w) = Inl e"
  shows "\<exists>tok. c = oauth2_Client oc tok
           \<and> files w1 tf = Some (Bytes (case EncodeToken lb tok of Inl err \<Rightarrow> [] | Inr b \<Rightarrow> b))"
proof -
  obtain wa where t: "tokenFromFile lb tf w = (Inl e, wa)"
    using no_cache by (cases "tokenFromFile lb tf w") simp
  obtain r2 wb where g: "getTokenFromWeb lb oc wa = (r2, wb)"
    by (cases "getTokenFromWeb lb oc wa")
  from first t g obtain tok where r2: "r2 = Return tok"
    by (cases r2) (auto simp: getClient_def)
  obtain r3 wc where sv: "saveToken lb tf tok wb = (r3, wc)"
    by (cases "saveToken lb tf tok wb")
  from first t g r2 sv have r3: "r3 = Return ()" and c: "c = oauth2_Client oc tok"
    and w1: "w1 = wc"
    by (cases r3; auto simp: getClient_def)+
  from saveToken_Return [OF sv [unfolded r3]] c w1 show ?thesis by blast
qed

text \<open>
  Claim C6.  Suppose \<open>getClient\<close> found no usable cached token, completed the interactive
  exchange and returned, and suppose the token encoder and decoder of the \<open>oauth2\<close> package
  fit together (what \<open>Encode\<close> writes for a token, \<open>Decode\<close> accepts).  Then the cache file
  holds the encoding of the token obtained, and on a later start with the same files
  \<open>getClient\<close> decodes it and returns the client built from the decoded token; its only
  action is to open the cache file: it prints no link, reads nothing from the console,
  exchanges no code and writes no file.
\<close>

theorem token_cache_round_trip:
  assumes first: "getClient lb oc tf w = (Return c, w1)"
    and no_cache: "fst (tokenFromFile lb tf w) = Inl e"
    and codec: "\<forall>t. \<exists>b t'. EncodeToken lb t = Inr b \<and> DecodeToken lb b = Inr t'"
    and kept: "files w2 = files w1"
  shows "\<exists>tok b t'. c = oauth2_Client oc tok \<and> EncodeToken lb tok = Inr b
           \<and> files w1 tf = Some (Bytes b) \<and> DecodeToken lb b = Inr t'
           \<and> getClient lb oc tf w2 = (Return (oauth2_Client oc t'), emit (EvOpen tf) w2)"
proof -
  from getClient_interactive_saves [OF first no_cache] obtain tok
    where c: "c = oauth2_Client oc tok"
      and f: "files w1 tf = Some (Bytes (case EncodeToken lb tok of Inl err \<Rightarrow> [] | Inr b \<Rightarrow> b))"
    by blast
  from codec obtain b t' where enc: "EncodeToken lb tok = Inr b" and dec: "DecodeToken lb b = Inr t'"
    by blast
  from f enc kept have f2: "files w2 tf = Some (Bytes b)" by simp
  from getClient_cached [OF f2 dec]
  have "getClient lb oc tf w2 = (Return (oauth2_Client oc t'), emit (EvOpen tf) w2)" .
  with c enc dec f show ?thesis by auto
qed

text \<open>
  The example: a first start without a cache, then a second start on the files the first
  one left.
\<close>

theorem token_cache_round_trip_witness:
  "getClient demo_libs demo_oauth ''token.json''
      (snd (getClient demo_libs demo_oauth ''token.json'' demo_world))
    = (Return (oauth2_Client demo_oauth demo_token),
       emit (EvOpen ''token.json'') (snd (getClient demo_libs demo_oauth ''token.json'' demo_world)))"
proof -
  obtain c w1 where first: "getClient demo_libs demo_oauth ''token.json'' demo_world = (Return c, w1)"
    by (simp add: getClient_def tokenFromFile_def os_Open_def contents_def getTokenFromWeb_def
        fmt_Scan_def saveToken_def os_Create_def can_create_def Let_def demo_world_def
        demo_libs_def emit_def)
  have no_cache: "fst (tokenFromFile demo_libs ''token.json'' demo_world)
      = Inl (open_error ''token.json'' None)"
    by (simp add: tokenFromFile_fst contents_def demo_world_def)
  have codec: "\<forall>t. \<exists>b t'. EncodeToken demo_libs t = Inr b \<and> DecodeToken demo_libs b = Inr t'"
    by (simp add: demo_libs_def)
  from token_cache_round_trip [OF first no_cache codec refl]
  obtain tok b t' where "EncodeToken demo_libs tok = Inr b" and "DecodeToken demo_libs b = Inr t'"
    and again: "getClient demo_libs demo_oauth ''token.json'' w1
        = (Return (oauth2_Client demo_oauth t'), emit (EvOpen ''token.json'') w1)"
    by blast
  then have "t' = demo_token"
    by (auto simp: demo_libs_def split: if_splits)
  with again first show ?thesis by simp
qed

end
